theory Spec2Isabelle
  imports Complex_Main "HOL-Library.Sublist" "HOL-Library.Multiset"
begin

section \<open>Data model\<close>

text \<open>
  The inventory tracker of \<^verbatim>\<open>src/app/page.tsx\<close>. A JavaScript number is modelled
  by a rational: the finite values, with exact arithmetic. The non-finite results that
  the code can produce from finite fields (a division by zero) are made explicit where
  they arise. An optional field (\<^verbatim>\<open>salePrice?: number\<close>) is an \<open>option\<close>, with
  \<open>None\<close> for \<^verbatim>\<open>undefined\<close>. A string is the list of the bytes of its UTF-8
  encoding, which is the text itself on the ASCII range.

  The fields \<^verbatim>\<open>id\<close> and \<^verbatim>\<open>image\<close> of the interface are named \<open>id_of\<close> and
  \<open>image_of\<close>, since the plain names are constants of HOL.
\<close>

record VintageItem =
  id_of :: int
  name :: string
  category :: string
  year :: string
  purchasePrice :: rat
  purchaseDate :: string
  currentValue :: rat
  image_of :: string
  salePrice :: "rat option"
  saleDate :: "string option"
  createdAt :: int

section \<open>Derived metrics\<close>

text \<open>
  JavaScript truthiness of an optional number, as tested by \<^verbatim>\<open>item.salePrice ? a : b\<close>,
  \<^verbatim>\<open>item.salePrice || x\<close> and \<^verbatim>\<open>items.filter(item => item.salePrice)\<close>:
  \<^verbatim>\<open>undefined\<close> and \<^verbatim>\<open>0\<close> are falsy, every other finite number is truthy.
\<close>

definition truthy :: "rat option \<Rightarrow> bool" where
  "truthy v = (case v of None \<Rightarrow> False | Some p \<Rightarrow> p \<noteq> 0)"

text \<open>
  \<^verbatim>\<open>const calculateProfit = (item) =>
    item.salePrice ? item.salePrice - item.purchasePrice
                   : item.currentValue - item.purchasePrice\<close>
\<close>

definition calculateProfit :: "VintageItem \<Rightarrow> rat" where
  "calculateProfit item =
     (if truthy (salePrice item) then the (salePrice item) - purchasePrice item
      else currentValue item - purchasePrice item)"

text \<open>
  The profit as the specification words it:
  \<^verbatim>\<open>(salePrice ?? currentValue) - purchasePrice\<close>, where \<^verbatim>\<open>??\<close> falls back only
  when the left operand is absent.
\<close>

definition spec_profit :: "VintageItem \<Rightarrow> rat" where
  "spec_profit item =
     (case salePrice item of Some p \<Rightarrow> p | None \<Rightarrow> currentValue item) - purchasePrice item"

section \<open>Aggregate statistics\<close>

text \<open>
  The value computed inside \<^verbatim>\<open>useMemo\<close> by \<^verbatim>\<open>StatisticsCard\<close>. The two counters are
  array lengths, hence natural numbers; their difference cannot go below zero because
  the filtered array is never longer than the array.
\<close>

record stats =
  soldItems :: nat
  unsoldItems :: nat
  totalSpent :: rat
  totalValue :: rat
  totalProfit :: rat
  averageProfit :: rat
  mostProfitableItem :: "VintageItem option"

text \<open>
  \<^verbatim>\<open>items.reduce((max, item) =>
     calculateProfit(item) > calculateProfit(max) ? item : max, items[0])\<close>
\<close>

definition pickMax :: "VintageItem \<Rightarrow> VintageItem \<Rightarrow> VintageItem" where
  "pickMax mx item = (if calculateProfit item > calculateProfit mx then item else mx)"

definition statistics :: "VintageItem list \<Rightarrow> stats" where
  "statistics items =
     (let sold = length (filter (\<lambda>item. truthy (salePrice item)) items);
          unsold = length items - sold;
          spent = foldl (\<lambda>sum item. sum + purchasePrice item) 0 items;
          val = foldl (\<lambda>sum item. sum +
                  (if truthy (salePrice item) then the (salePrice item)
                   else currentValue item)) 0 items;
          profit = foldl (\<lambda>sum item. sum + calculateProfit item) 0 items;
          avg = (if length items > 0 then profit / rat_of_nat (length items) else 0);
          best = (case items of [] \<Rightarrow> None | first # _ \<Rightarrow> Some (foldl pickMax first items))
      in \<lparr> soldItems = sold, unsoldItems = unsold, totalSpent = spent, totalValue = val,
           totalProfit = profit, averageProfit = avg, mostProfitableItem = best \<rparr>)"

section \<open>Strings\<close>

text \<open>
  \<^verbatim>\<open>s.toLowerCase()\<close>. On a string of ASCII characters it maps the letters A to Z
  to a to z and keeps the rest. On a string with any other character the result is the
  Unicode case mapping of the runtime, which is the parameter \<open>unicodeLower\<close>.
\<close>

definition isAscii :: "string \<Rightarrow> bool" where
  "isAscii s = list_all (\<lambda>c. (of_char c :: nat) < 128) s"

definition isUpper :: "char \<Rightarrow> bool" where
  "isUpper c = (65 \<le> (of_char c :: nat) \<and> (of_char c :: nat) \<le> 90)"

definition lowerChar :: "char \<Rightarrow> char" where
  "lowerChar c = (if isUpper c then char_of ((of_char c :: nat) + 32) else c)"

definition toLowerCase :: "(string \<Rightarrow> string) \<Rightarrow> string \<Rightarrow> string" where
  "toLowerCase unicodeLower s = (if isAscii s then map lowerChar s else unicodeLower s)"

text \<open>\<^verbatim>\<open>s.includes(t)\<close>: \<open>t\<close> occurs in \<open>s\<close> as a contiguous run.\<close>

fun includes_str :: "string \<Rightarrow> string \<Rightarrow> bool" where
  "includes_str [] t = (t = [])"
| "includes_str (c # s) t = (prefix t (c # s) \<or> includes_str s t)"

text \<open>
  The specification's words for the search stage: a case-insensitive substring match.
  Two characters are the same letter when they are equal or when one is the upper-case
  form of the other; \<open>t\<close> is a case-insensitive substring of \<open>s\<close> when some run of
  \<open>s\<close> agrees with \<open>t\<close> letter by letter. The letters are those of the ASCII range.
\<close>

definition sameLetter :: "char \<Rightarrow> char \<Rightarrow> bool" where
  "sameLetter a b =
     (a = b \<or> (isUpper a \<and> (of_char b :: nat) = of_char a + 32)
            \<or> (isUpper b \<and> (of_char a :: nat) = of_char b + 32))"

definition ciSubstring :: "string \<Rightarrow> string \<Rightarrow> bool" where
  "ciSubstring t s = (\<exists>pre mid post. s = pre @ mid @ post \<and> list_all2 sameLetter mid t)"

text \<open>\<^verbatim>\<open>s.split(sep)\<close> for a one-character separator, and \<^verbatim>\<open>parts.join(sep)\<close>.\<close>

fun split_at :: "char \<Rightarrow> string \<Rightarrow> string list" where
  "split_at sep [] = [[]]"
| "split_at sep (c # s) =
     (if c = sep then [] # split_at sep s
      else (case split_at sep s of [] \<Rightarrow> [[c]] | p # ps \<Rightarrow> (c # p) # ps))"

fun join_with :: "char \<Rightarrow> string list \<Rightarrow> string" where
  "join_with sep [] = []"
| "join_with sep [p] = p"
| "join_with sep (p # q # ps) = p @ sep # join_with sep (q # ps)"

text \<open>\<^verbatim>\<open>purchaseDate.split('/').reverse().join('-')\<close>: from dd/mm/yyyy to yyyy-mm-dd.\<close>

definition isoForm :: "string \<Rightarrow> string" where
  "isoForm d = join_with CHR ''-'' (rev (split_at CHR ''/'' d))"

section \<open>Numbers that may not be finite\<close>

text \<open>
  The quotient of two finite numbers, the time value of a date and the number read back
  from a string may be \<^verbatim>\<open>NaN\<close> or infinite.
\<close>

datatype jsnum = NaN | NegInf | Fin rat | PosInf

fun jsub :: "jsnum \<Rightarrow> jsnum \<Rightarrow> jsnum" where
  "jsub NaN _ = NaN"
| "jsub _ NaN = NaN"
| "jsub (Fin a) (Fin b) = Fin (a - b)"
| "jsub (Fin a) PosInf = NegInf"
| "jsub (Fin a) NegInf = PosInf"
| "jsub PosInf PosInf = NaN"
| "jsub PosInf _ = PosInf"
| "jsub NegInf NegInf = NaN"
| "jsub NegInf _ = NegInf"

fun jneg :: "jsnum \<Rightarrow> jsnum" where
  "jneg NaN = NaN"
| "jneg NegInf = PosInf"
| "jneg (Fin a) = Fin (- a)"
| "jneg PosInf = NegInf"

text \<open>Division of finite numbers; the zero of the model is the positive zero.\<close>

definition jdiv :: "rat \<Rightarrow> rat \<Rightarrow> jsnum" where
  "jdiv a b =
     (if b \<noteq> 0 then Fin (a / b)
      else if a > 0 then PosInf else if a < 0 then NegInf else NaN)"

definition jtimes :: "jsnum \<Rightarrow> rat \<Rightarrow> jsnum" where
  "jtimes v r =
     (case v of
        NaN \<Rightarrow> NaN
      | Fin a \<Rightarrow> Fin (a * r)
      | PosInf \<Rightarrow> (if r > 0 then PosInf else if r < 0 then NegInf else NaN)
      | NegInf \<Rightarrow> (if r > 0 then NegInf else if r < 0 then PosInf else NaN))"

text \<open>
  The time value of a date, \<^verbatim>\<open>new Date(s).getTime()\<close>, belongs to the runtime: it
  is a parameter \<open>getTime\<close> of the functions that need it, with \<open>None\<close> for an
  invalid date, whose time value is \<^verbatim>\<open>NaN\<close>.
\<close>

definition timeValue :: "rat option \<Rightarrow> jsnum" where
  "timeValue t = (case t of None \<Rightarrow> NaN | Some ms \<Rightarrow> Fin ms)"

text \<open>\<^verbatim>\<open>v > 0\<close>; a comparison with \<^verbatim>\<open>NaN\<close> is false.\<close>

fun positive :: "jsnum \<Rightarrow> bool" where
  "positive (Fin a) = (a > 0)"
| "positive PosInf = True"
| "positive _ = False"

subsection \<open>Printing and reading decimals\<close>

definition digitChar :: "nat \<Rightarrow> char" where
  "digitChar d = char_of (48 + d)"

definition isDigit :: "char \<Rightarrow> bool" where
  "isDigit c = (48 \<le> (of_char c :: nat) \<and> (of_char c :: nat) \<le> 57)"

definition digitVal :: "char \<Rightarrow> nat" where
  "digitVal c = of_char c - 48"

function showNat :: "nat \<Rightarrow> string" where
  "showNat n = (if n < 10 then [digitChar n] else showNat (n div 10) @ [digitChar (n mod 10)])"
  by pat_completeness auto
termination
  by (relation "measure (\<lambda>n. n)") auto

declare showNat.simps [simp del]

definition readNat :: "string \<Rightarrow> nat" where
  "readNat s = foldl (\<lambda>acc c. 10 * acc + digitVal c) 0 s"

text \<open>
  \<^verbatim>\<open>x.toFixed(1)\<close>: the sign, then the integer \<open>n\<close> for which \<open>n / 10\<close> is nearest to
  \<open>|x|\<close>, the larger one on a tie, printed with one digit after the point. The
  arithmetic of the model is exact: it agrees with the binary floating point of the
  runtime where that is exact, as on the whole amounts of the examples, and it prints
  plain digits also from \<open>10^21\<close> on, where JavaScript switches to exponent notation.
\<close>

definition tenths :: "rat \<Rightarrow> nat" where
  "tenths x = nat \<lfloor>\<bar>x\<bar> * 10 + 1 / 2\<rfloor>"

definition toFixed1 :: "jsnum \<Rightarrow> string" where
  "toFixed1 v =
     (case v of
        NaN \<Rightarrow> ''NaN''
      | PosInf \<Rightarrow> ''Infinity''
      | NegInf \<Rightarrow> ''-Infinity''
      | Fin x \<Rightarrow> (if x < 0 then ''-'' else '''') @ showNat (tenths x div 10)
                   @ ''.'' @ showNat (tenths x mod 10))"

text \<open>
  \<^verbatim>\<open>Number(s)\<close> on the strings \<^verbatim>\<open>toFixed\<close> prints: an optional sign, then
  \<^verbatim>\<open>Infinity\<close> or decimal digits with an optional fraction. The other literals that
  JavaScript accepts (exponents, hexadecimal, surrounding white space) never reach this
  function in the source and are read as \<^verbatim>\<open>NaN\<close> here.
\<close>

definition readUnsigned :: "string \<Rightarrow> jsnum" where
  "readUnsigned s =
     (if s = ''Infinity'' then PosInf
      else
        (let ip = takeWhile (\<lambda>c. c \<noteq> CHR ''.'') s;
             rest = dropWhile (\<lambda>c. c \<noteq> CHR ''.'') s;
             fp = tl rest
         in if list_all isDigit ip \<and> list_all isDigit fp \<and> (ip \<noteq> [] \<or> fp \<noteq> [])
            then Fin (rat_of_nat (readNat ip) + rat_of_nat (readNat fp) / 10 ^ length fp)
            else NaN))"

definition Number_of :: "string \<Rightarrow> jsnum" where
  "Number_of s =
     (case s of
        [] \<Rightarrow> Fin 0
      | c # r \<Rightarrow>
          (if c = CHR ''-'' then jneg (readUnsigned r)
           else if c = CHR ''+'' then readUnsigned r
           else readUnsigned s))"

text \<open>
  \<^verbatim>\<open>const calculateProfitPercentage = (item) =>
    ((calculateProfit(item) / item.purchasePrice) * 100).toFixed(1)\<close>
\<close>

definition calculateProfitPercentage :: "VintageItem \<Rightarrow> string" where
  "calculateProfitPercentage item =
     toFixed1 (jtimes (jdiv (calculateProfit item) (purchasePrice item)) 100)"

section \<open>Query pipeline\<close>

datatype sortOrder = Asc | Desc

definition matchesSearch :: "(string \<Rightarrow> string) \<Rightarrow> string \<Rightarrow> VintageItem \<Rightarrow> bool" where
  "matchesSearch unicodeLower searchTerm item =
     (includes_str (toLowerCase unicodeLower (name item)) (toLowerCase unicodeLower searchTerm)
      \<or> includes_str (toLowerCase unicodeLower (category item))
            (toLowerCase unicodeLower searchTerm))"

definition matchesSale :: "string \<Rightarrow> VintageItem \<Rightarrow> bool" where
  "matchesSale filterBy item =
     (if filterBy = ''all'' then True
      else if filterBy = ''sold'' then salePrice item \<noteq> None
      else if filterBy = ''unsold'' then salePrice item = None
      else True)"

definition matchesCategory :: "string \<Rightarrow> VintageItem \<Rightarrow> bool" where
  "matchesCategory filterCategory item =
     (filterCategory = ''all'' \<or> category item = filterCategory)"

text \<open>
  The comparator handed to \<^verbatim>\<open>sort\<close>: \<open>comparison\<close> is the local variable of
  that name, \<open>compareFn\<close> the value returned.
\<close>

definition comparison :: "(string \<Rightarrow> rat option) \<Rightarrow> string \<Rightarrow> VintageItem \<Rightarrow> VintageItem \<Rightarrow> jsnum" where
  "comparison getTime sortBy a b =
     (if sortBy = ''profit'' then Fin (calculateProfit b - calculateProfit a)
      else if sortBy = ''date'' then
        jsub (timeValue (getTime (isoForm (purchaseDate b))))
             (timeValue (getTime (isoForm (purchaseDate a))))
      else if sortBy = ''percentage'' then
        jsub (Number_of (calculateProfitPercentage b)) (Number_of (calculateProfitPercentage a))
      else if sortBy = ''createdAt'' then Fin (of_int (createdAt b - createdAt a))
      else Fin 0)"

definition compareFn :: "(string \<Rightarrow> rat option) \<Rightarrow> string \<Rightarrow> sortOrder \<Rightarrow> VintageItem \<Rightarrow> VintageItem \<Rightarrow> jsnum" where
  "compareFn getTime sortBy order a b =
     (if order = Asc then comparison getTime sortBy a b
      else jneg (comparison getTime sortBy a b))"

text \<open>
  \<^verbatim>\<open>Array.prototype.sort\<close> with a comparator: a stable sort, where \<open>b\<close> goes before
  \<open>a\<close> only if \<open>cmp a b > 0\<close>. For a comparator that is a consistent order every
  stable sort returns the same array, so the model is the insertion sort. When the
  comparator returns \<^verbatim>\<open>NaN\<close> for some pair (an unparsable purchase date under the
  key \<open>date\<close>) the order that the runtime produces is its own and is not modelled.
\<close>

fun insert_by :: "('a \<Rightarrow> 'a \<Rightarrow> jsnum) \<Rightarrow> 'a \<Rightarrow> 'a list \<Rightarrow> 'a list" where
  "insert_by cmp x [] = [x]"
| "insert_by cmp x (y # ys) =
     (if positive (cmp x y) then y # insert_by cmp x ys else x # y # ys)"

definition array_sort :: "('a \<Rightarrow> 'a \<Rightarrow> jsnum) \<Rightarrow> 'a list \<Rightarrow> 'a list" where
  "array_sort cmp xs = foldr (insert_by cmp) xs []"

definition filteredAndSortedItems ::
  "(string \<Rightarrow> string) \<Rightarrow> (string \<Rightarrow> rat option) \<Rightarrow> VintageItem list \<Rightarrow> string \<Rightarrow> string
     \<Rightarrow> string \<Rightarrow> string \<Rightarrow> sortOrder \<Rightarrow> VintageItem list" where
  "filteredAndSortedItems unicodeLower getTime items searchTerm filterBy filterCategory
       sortBy order =
     array_sort (compareFn getTime sortBy order)
       (filter (matchesCategory filterCategory)
         (filter (matchesSale filterBy)
           (filter (matchesSearch unicodeLower searchTerm) items)))"

section \<open>Reading integers\<close>

text \<open>
  White space as \<^verbatim>\<open>trim\<close> and \<^verbatim>\<open>parseInt\<close> skip it: tab, line feed, vertical
  tab, form feed, carriage return, space, and the characters U+00A0, U+1680, U+2000 to
  U+200A, U+2028, U+2029, U+202F, U+205F, U+3000 and U+FEFF, each by its UTF-8 bytes.
\<close>

definition spaceCodes :: "string list" where
  "spaceCodes =
     [[CHR 0x09], [CHR 0x0A], [CHR 0x0B], [CHR 0x0C], [CHR 0x0D], [CHR 0x20],
      [CHR 0xC2, CHR 0xA0], [CHR 0xE1, CHR 0x9A, CHR 0x80],
      [CHR 0xE2, CHR 0x80, CHR 0x80], [CHR 0xE2, CHR 0x80, CHR 0x81],
      [CHR 0xE2, CHR 0x80, CHR 0x82], [CHR 0xE2, CHR 0x80, CHR 0x83],
      [CHR 0xE2, CHR 0x80, CHR 0x84], [CHR 0xE2, CHR 0x80, CHR 0x85],
      [CHR 0xE2, CHR 0x80, CHR 0x86], [CHR 0xE2, CHR 0x80, CHR 0x87],
      [CHR 0xE2, CHR 0x80, CHR 0x88], [CHR 0xE2, CHR 0x80, CHR 0x89],
      [CHR 0xE2, CHR 0x80, CHR 0x8A], [CHR 0xE2, CHR 0x80, CHR 0xA8],
      [CHR 0xE2, CHR 0x80, CHR 0xA9], [CHR 0xE2, CHR 0x80, CHR 0xAF],
      [CHR 0xE2, CHR 0x81, CHR 0x9F], [CHR 0xE3, CHR 0x80, CHR 0x80],
      [CHR 0xEF, CHR 0xBB, CHR 0xBF]]"

text \<open>Removes from the front of \<open>s\<close> every leading occurrence of one of the \<open>codes\<close>.\<close>

function dropCodes :: "string list \<Rightarrow> string \<Rightarrow> string" where
  "dropCodes codes s =
     (case find (\<lambda>w. w \<noteq> [] \<and> prefix w s) codes of
        None \<Rightarrow> s
      | Some w \<Rightarrow> dropCodes codes (drop (length w) s))"
  by pat_completeness auto
termination
proof (relation "measure (\<lambda>(codes, s). length s)")
  show "wf (measure (\<lambda>(codes, s). length s))" by simp
next
  fix codes :: "string list" and s w :: string
  assume "find (\<lambda>w. w \<noteq> [] \<and> prefix w s) codes = Some w"
  then have "w \<noteq> []" and "prefix w s" by (auto simp: find_Some_iff)
  then have "0 < length w" and "length w \<le> length s" by (auto simp: prefix_def)
  then have "length s - length w < length s" by arith
  then show "((codes, drop (length w) s), (codes, s)) \<in> measure (\<lambda>(codes, s). length s)"
    by simp
qed

declare dropCodes.simps [simp del]

definition trimStart :: "string \<Rightarrow> string" where
  "trimStart s = dropCodes spaceCodes s"

definition trimEnd :: "string \<Rightarrow> string" where
  "trimEnd s = rev (dropCodes (map rev spaceCodes) (rev s))"

definition trim :: "string \<Rightarrow> string" where
  "trim s = trimEnd (trimStart s)"

definition hexVal :: "char \<Rightarrow> nat option" where
  "hexVal c =
     (let n = (of_char c :: nat) in
      if 48 \<le> n \<and> n \<le> 57 then Some (n - 48)
      else if 97 \<le> n \<and> n \<le> 102 then Some (n - 87)
      else if 65 \<le> n \<and> n \<le> 70 then Some (n - 55)
      else None)"

definition readHex :: "string \<Rightarrow> nat" where
  "readHex s = foldl (\<lambda>acc c. 16 * acc + the (hexVal c)) 0 s"

text \<open>
  The number value of an integer that was read: the nearest binary64 number, ties to
  the even mantissa, and \<^verbatim>\<open>Infinity\<close> from \<open>2^1024\<close> on. Below \<open>2^53\<close> every integer is
  its own number value. For a decimal integer of more than 20 digits the language lets
  an engine round from the first 20 digits; the model rounds the exact integer, as the
  engines in use do.
\<close>

function bitLength :: "nat \<Rightarrow> nat" where
  "bitLength n = (if n = 0 then 0 else Suc (bitLength (n div 2)))"
  by pat_completeness auto
termination
  by (relation "measure (\<lambda>n. n)") auto

declare bitLength.simps [simp del]

definition roundHalfEven :: "nat \<Rightarrow> nat \<Rightarrow> nat" where
  "roundHalfEven n q =
     (let d = n div q; r = n mod q in
      if 2 * r < q then d
      else if 2 * r > q then d + 1
      else if even d then d else d + 1)"

definition natToDouble :: "nat \<Rightarrow> jsnum" where
  "natToDouble n =
     (if int n < 2 ^ 53 then Fin (rat_of_int (int n))
      else
        (let q = 2 ^ (bitLength n - 53);
             v = roundHalfEven n q * q
         in if 2 ^ 1024 \<le> int v then PosInf else Fin (rat_of_int (int v))))"

text \<open>
  The sign of \<^verbatim>\<open>parseInt\<close>: a leading \<^verbatim>\<open>-\<close> or \<^verbatim>\<open>+\<close> is removed, and \<^verbatim>\<open>-\<close>
  negates the result.
\<close>

definition takeSign :: "string \<Rightarrow> bool \<times> string" where
  "takeSign s =
     (case s of
        [] \<Rightarrow> (False, [])
      | c # r \<Rightarrow>
          (if c = CHR ''-'' then (True, r) else if c = CHR ''+'' then (False, r)
           else (False, s)))"

definition applySign :: "bool \<Rightarrow> jsnum \<Rightarrow> jsnum" where
  "applySign negative v = (if negative then jneg v else v)"

text \<open>
  \<^verbatim>\<open>parseInt(s, 10)\<close>: leading white space, a sign, then the longest run of decimal
  digits; \<^verbatim>\<open>NaN\<close> when the run is empty.
\<close>

definition parseInt10 :: "string \<Rightarrow> jsnum" where
  "parseInt10 s =
     (let (negative, r) = takeSign (trimStart s);
          z = takeWhile isDigit r
      in if z = [] then NaN else applySign negative (natToDouble (readNat z)))"

text \<open>
  \<^verbatim>\<open>parseInt(s)\<close> with no radix: as above, except that after the sign a prefix
  \<^verbatim>\<open>0x\<close> or \<^verbatim>\<open>0X\<close> selects base 16.
\<close>

definition parseInt :: "string \<Rightarrow> jsnum" where
  "parseInt s =
     (let (negative, r) = takeSign (trimStart s) in
      if take 2 r = ''0x'' \<or> take 2 r = ''0X'' then
        (let z = takeWhile (\<lambda>c. hexVal c \<noteq> None) (drop 2 r)
         in if z = [] then NaN else applySign negative (natToDouble (readHex z)))
      else
        (let z = takeWhile isDigit r
         in if z = [] then NaN else applySign negative (natToDouble (readNat z))))"

section \<open>Item store\<close>

text \<open>
  The form state behind the add and edit dialogs. The text inputs always hold a string,
  a missing one is the empty string; the two number inputs hold \<^verbatim>\<open>null\<close> (here
  \<open>None\<close>) once the field is emptied. The edit dialog works on a whole item, so its
  state extends the form by \<^verbatim>\<open>id\<close> and \<^verbatim>\<open>createdAt\<close>.
\<close>

record Candidate =
  f_name :: string
  f_category :: string
  f_year :: string
  f_purchasePrice :: "rat option"
  f_purchaseDate :: string
  f_currentValue :: "rat option"
  f_image :: string
  f_salePrice :: "rat option"
  f_saleDate :: "string option"

record EditItem = Candidate +
  f_id :: int
  f_createdAt :: int

text \<open>\<^verbatim>\<open>a > b\<close> on numbers that may be \<^verbatim>\<open>NaN\<close>, as in \<^verbatim>\<open>purchaseDate > new Date()\<close>.\<close>

definition jgreater :: "jsnum \<Rightarrow> jsnum \<Rightarrow> bool" where
  "jgreater a b = positive (jsub a b)"

text \<open>
  \<^verbatim>\<open>validateForm\<close> returns an object with the key of every failing field set to
  \<^verbatim>\<open>true\<close>. The calendar year and the time of the call are the parameters
  \<open>currentYear\<close> and \<open>now\<close>.
\<close>

type_synonym FormErrors = "string \<rightharpoonup> bool"

definition checkYear :: "int \<Rightarrow> string \<Rightarrow> bool" where
  "checkYear currentYear y =
     (if y = [] then True
      else (case parseInt y of
              Fin yearNum \<Rightarrow> yearNum < 1800 \<or> yearNum > rat_of_int currentYear
            | _ \<Rightarrow> True))"

definition checkDate :: "(string \<Rightarrow> rat option) \<Rightarrow> rat \<Rightarrow> string \<Rightarrow> bool" where
  "checkDate getTime now d =
     (if d = [] then True else jgreater (timeValue (getTime (isoForm d))) (Fin now))"

definition flag :: "bool \<Rightarrow> string \<Rightarrow> FormErrors \<Rightarrow> FormErrors" where
  "flag failed key errors = (if failed then errors(key \<mapsto> True) else errors)"

definition validateForm ::
  "int \<Rightarrow> (string \<Rightarrow> rat option) \<Rightarrow> rat \<Rightarrow> 'a Candidate_scheme \<Rightarrow> FormErrors" where
  "validateForm currentYear getTime now item =
     flag (f_currentValue item = None) ''currentValue''
      (flag (checkDate getTime now (f_purchaseDate item)) ''purchaseDate''
       (flag (f_purchasePrice item = None) ''purchasePrice''
        (flag (checkYear currentYear (f_year item)) ''year''
         (flag (f_category item = []) ''category''
          (flag (f_name item = []) ''name'' Map.empty)))))"

text \<open>
  The component state. A toast is recorded by its title. \<^verbatim>\<open>new Set(...)\<close> keeps the
  first occurrence of each category.
\<close>

record AppState =
  items :: "VintageItem list"
  categories :: "string list"
  newItem :: Candidate
  isAddingItem :: bool
  editingItem :: "EditItem option"
  sellingItem :: "(int \<times> rat) option"
  updatingValue :: "(int \<times> rat) option"
  formErrors :: FormErrors
  toasts :: "string list"

definition updateCategories :: "VintageItem list \<Rightarrow> string list" where
  "updateCategories its = rev (remdups (rev (map category its)))"

definition emptyForm :: Candidate where
  "emptyForm = \<lparr> f_name = '''', f_category = '''', f_year = '''', f_purchasePrice = Some 0,
       f_purchaseDate = '''', f_currentValue = Some 0, f_image = ''/images/placeholder.png'',
       f_salePrice = None, f_saleDate = None \<rparr>"

text \<open>
  The item built from a validated form: \<^verbatim>\<open>{ ...newItem, id, createdAt,
  purchasePrice: Number(newItem.purchasePrice), currentValue: Number(newItem.currentValue) }\<close>.
  \<^verbatim>\<open>Number(null)\<close> is 0; validation lets no \<^verbatim>\<open>null\<close> through.
\<close>

definition toItem :: "int \<Rightarrow> int \<Rightarrow> 'a Candidate_scheme \<Rightarrow> VintageItem" where
  "toItem i t c =
     \<lparr> id_of = i, name = f_name c, category = f_category c, year = f_year c,
       purchasePrice = (case f_purchasePrice c of None \<Rightarrow> 0 | Some p \<Rightarrow> p),
       purchaseDate = f_purchaseDate c,
       currentValue = (case f_currentValue c of None \<Rightarrow> 0 | Some v \<Rightarrow> v),
       image_of = f_image c, salePrice = f_salePrice c, saleDate = f_saleDate c,
       createdAt = t \<rparr>"

text \<open>
  \<^verbatim>\<open>addItem\<close>; \<open>idNow\<close> and \<open>createdNow\<close> are the two readings of \<^verbatim>\<open>Date.now()\<close>.
\<close>

definition addItem ::
  "int \<Rightarrow> (string \<Rightarrow> rat option) \<Rightarrow> rat \<Rightarrow> int \<Rightarrow> int \<Rightarrow> AppState \<Rightarrow> AppState" where
  "addItem currentYear getTime now idNow createdNow st =
     (let errors = validateForm currentYear getTime now (newItem st) in
      if dom errors = {} then
        (let newItemWithId = toItem idNow createdNow (newItem st);
             updatedItems = newItemWithId # items st
         in st\<lparr> items := updatedItems, categories := updateCategories updatedItems,
                 newItem := emptyForm, isAddingItem := False,
                 toasts := toasts st @ [''Articolo aggiunto''] \<rparr>)
      else st\<lparr> formErrors := errors \<rparr>)"

definition updateItem ::
  "int \<Rightarrow> (string \<Rightarrow> rat option) \<Rightarrow> rat \<Rightarrow> EditItem \<Rightarrow> AppState \<Rightarrow> AppState" where
  "updateItem currentYear getTime now updatedItem st =
     (let errors = validateForm currentYear getTime now updatedItem in
      if dom errors = {} then
        (let new = toItem (f_id updatedItem) (f_createdAt updatedItem) updatedItem;
             updatedItems = map (\<lambda>item. if id_of item = f_id updatedItem then new else item)
                              (items st)
         in st\<lparr> items := updatedItems, categories := updateCategories updatedItems,
                 editingItem := None, toasts := toasts st @ [''Articolo aggiornato''] \<rparr>)
      else st\<lparr> formErrors := errors \<rparr>)"

text \<open>
  \<^verbatim>\<open>sellItem\<close>; \<open>today\<close> is \<^verbatim>\<open>new Date().toLocaleDateString('it-IT')\<close>.
\<close>

definition sellItem :: "string \<Rightarrow> int \<Rightarrow> rat \<Rightarrow> AppState \<Rightarrow> AppState" where
  "sellItem today i price st =
     st\<lparr> items := map (\<lambda>item. if id_of item = i
                                then item\<lparr> salePrice := Some price, saleDate := Some today \<rparr>
                                else item) (items st),
          sellingItem := None, toasts := toasts st @ [''Articolo venduto''] \<rparr>"

definition updateItemValue :: "int \<Rightarrow> rat \<Rightarrow> AppState \<Rightarrow> AppState" where
  "updateItemValue i newValue st =
     st\<lparr> items := map (\<lambda>item. if id_of item = i then item\<lparr> currentValue := newValue \<rparr>
                                else item) (items st),
          updatingValue := None, toasts := toasts st @ [''Valore aggiornato''] \<rparr>"

text \<open>
  The fields that validation flags, in words: a required field is missing; the leading
  integer that \<^verbatim>\<open>parseInt\<close> reads off the year is absent or lies outside 1800 and the
  current year; the purchase date is a date later than now.
\<close>

definition flaggedFields ::
  "int \<Rightarrow> (string \<Rightarrow> rat option) \<Rightarrow> rat \<Rightarrow> 'a Candidate_scheme \<Rightarrow> string set" where
  "flaggedFields currentYear getTime now c =
     {k. k = ''name'' \<and> f_name c = []}
     \<union> {k. k = ''category'' \<and> f_category c = []}
     \<union> {k. k = ''year'' \<and> (f_year c = [] \<or>
            \<not> (\<exists>y. parseInt (f_year c) = Fin y \<and> 1800 \<le> y \<and> y \<le> rat_of_int currentYear))}
     \<union> {k. k = ''purchasePrice'' \<and> f_purchasePrice c = None}
     \<union> {k. k = ''purchaseDate'' \<and> (f_purchaseDate c = [] \<or>
            (\<exists>t. getTime (isoForm (f_purchaseDate c)) = Some t \<and> t > now))}
     \<union> {k. k = ''currentValue'' \<and> f_currentValue c = None}"

text \<open>
  The failing fields as the claim words them. They differ from the flagged fields in
  the year: it fails when the text of the year is not an integer, a non-empty run of
  decimal digits, within 1800 and the current year.
\<close>

definition isIntegerText :: "string \<Rightarrow> bool" where
  "isIntegerText y = (y \<noteq> [] \<and> list_all isDigit y)"

definition claimedFailingFields ::
  "int \<Rightarrow> (string \<Rightarrow> rat option) \<Rightarrow> rat \<Rightarrow> 'a Candidate_scheme \<Rightarrow> string set" where
  "claimedFailingFields currentYear getTime now c =
     {k. k = ''name'' \<and> f_name c = []}
     \<union> {k. k = ''category'' \<and> f_category c = []}
     \<union> {k. k = ''year'' \<and>
            \<not> (isIntegerText (f_year c) \<and> 1800 \<le> int (readNat (f_year c))
                 \<and> int (readNat (f_year c)) \<le> currentYear)}
     \<union> {k. k = ''purchasePrice'' \<and> f_purchasePrice c = None}
     \<union> {k. k = ''purchaseDate'' \<and> (f_purchaseDate c = [] \<or>
            (\<exists>t. getTime (isoForm (f_purchaseDate c)) = Some t \<and> t > now))}
     \<union> {k. k = ''currentValue'' \<and> f_currentValue c = None}"

section \<open>Price suggestion gateway\<close>

text \<open>
  The value \<^verbatim>\<open>JSON.parse\<close> returns. An object is the list of its members, with
  distinct keys. \<^verbatim>\<open>JSON.parse\<close> itself belongs to the runtime: it is the parameter
  \<open>JSON_parse\<close> of the functions below, \<open>None\<close> when it throws.
\<close>

datatype json =
    JNull
  | JBool bool
  | JNum rat
  | JStr string
  | JArr "json list"
  | JObj "(string \<times> json) list"

datatype parse_error = SyntaxError

text \<open>
  \<^verbatim>\<open>parsed.key\<close>: the outer \<open>None\<close> is the \<^verbatim>\<open>TypeError\<close> of a property read on
  \<^verbatim>\<open>null\<close>, the inner \<open>None\<close> is \<^verbatim>\<open>undefined\<close>.
\<close>

definition getProp :: "json \<Rightarrow> string \<Rightarrow> json option option" where
  "getProp v key =
     (case v of
        JNull \<Rightarrow> None
      | JObj members \<Rightarrow> Some (map_of members key)
      | _ \<Rightarrow> Some None)"

text \<open>
  \<^verbatim>\<open>parseInt(n, 10)\<close> for a number \<open>n\<close>, which is first printed. Between
  \<open>10^-6\<close> and \<open>10^21\<close> the print is plain decimal and the integer part is read;
  outside the print is in exponent notation and only its leading digit is read.
\<close>

definition leadingDigit :: "rat \<Rightarrow> nat" where
  "leadingDigit a =
     digitVal (hd (showNat (nat \<lfloor>a * 10 ^ length (showNat (nat (snd (quotient_of a))))\<rfloor>)))"

definition parseIntNum :: "rat \<Rightarrow> jsnum" where
  "parseIntNum n =
     (let a = \<bar>n\<bar> in
      if a = 0 then Fin 0
      else if a < 1 / 10 ^ 6 \<or> 10 ^ 21 \<le> a then
        applySign (n < 0) (Fin (rat_of_int (int (leadingDigit a))))
      else applySign (n < 0) (natToDouble (nat \<lfloor>a\<rfloor>)))"

text \<open>
  \<^verbatim>\<open>parseInt(v, 10)\<close> for a value that is not a string at the top: the value is
  printed first. \<^verbatim>\<open>undefined\<close>, \<^verbatim>\<open>null\<close>, a boolean and an object print as words
  and give \<^verbatim>\<open>NaN\<close>; an array prints its elements separated by commas, so that the
  result is read off its first element; a string inside an array is read as it is.
\<close>

fun parseIntValue :: "json \<Rightarrow> jsnum" where
  "parseIntValue (JNum n) = parseIntNum n"
| "parseIntValue (JStr s) = parseInt10 s"
| "parseIntValue (JArr []) = NaN"
| "parseIntValue (JArr (v # vs)) = parseIntValue v"
| "parseIntValue _ = NaN"

text \<open>
  The part of \<^verbatim>\<open>findSuggestedPrice\<close> after the request. \<open>content\<close> is the text of
  the response, \<open>None\<close> when the request or the read of the response throws. The
  result is the returned number, with the message handed to \<^verbatim>\<open>setError\<close> when the
  function fails. A number that \<^verbatim>\<open>parseInt\<close> returns is the result unless it is
  \<^verbatim>\<open>NaN\<close>.
\<close>

definition stripNonDigits :: "string \<Rightarrow> string" where
  "stripNonDigits s = filter isDigit s"

text \<open>
  The two messages of \<^verbatim>\<open>setError\<close>: \<open>PriceParsingError\<close> is the one of the inner
  \<^verbatim>\<open>catch\<close> around \<^verbatim>\<open>JSON.parse\<close> (``Errore nel parsing del prezzo''), and
  \<open>PriceLookupError\<close> the one of the outer \<^verbatim>\<open>catch\<close> (``Si e verificato un errore
  durante il recupero del prezzo suggerito'').
\<close>

datatype price_error = PriceParsingError | PriceLookupError

text \<open>\<^verbatim>\<open>r.startsWith('{') && r.endsWith('}')\<close>\<close>

definition braced :: "string \<Rightarrow> bool" where
  "braced r = (r \<noteq> [] \<and> hd r = CHR ''{'' \<and> last r = CHR ''}'')"

definition finalPrice :: "VintageItem \<Rightarrow> jsnum \<Rightarrow> jsnum \<times> price_error option" where
  "finalPrice item p =
     (case p of
        NaN \<Rightarrow> (Fin (currentValue item), Some PriceLookupError)
      | _ \<Rightarrow> (p, None))"

definition findSuggestedPrice ::
  "(string \<Rightarrow> json option) \<Rightarrow> VintageItem \<Rightarrow> string option
     \<Rightarrow> jsnum \<times> price_error option" where
  "findSuggestedPrice JSON_parse item content =
     (case content of
        None \<Rightarrow> (Fin (currentValue item), Some PriceLookupError)
      | Some text \<Rightarrow>
          (let agentResponse = trim text in
           if braced agentResponse then
             (case JSON_parse agentResponse of
                None \<Rightarrow> (Fin (currentValue item), Some PriceParsingError)
              | Some parsedResponse \<Rightarrow>
                  (case getProp parsedResponse ''prezzo'' of
                     None \<Rightarrow> (Fin (currentValue item), Some PriceParsingError)
                   | Some None \<Rightarrow> finalPrice item NaN
                   | Some (Some (JStr s)) \<Rightarrow>
                       finalPrice item (parseInt10 (trim (stripNonDigits s)))
                   | Some (Some extractedPrice) \<Rightarrow>
                       finalPrice item (parseIntValue extractedPrice)))
           else finalPrice item (parseInt10 (trim (stripNonDigits agentResponse)))))"

text \<open>
  \<^verbatim>\<open>indexOf\<close>, \<^verbatim>\<open>lastIndexOf\<close> (both \<open>-1\<close> when the character is absent) and
  \<^verbatim>\<open>substring\<close>, which clamps its arguments to the string and swaps them when the
  first is the larger.
\<close>

fun indexOf :: "char \<Rightarrow> string \<Rightarrow> int" where
  "indexOf c [] = - 1"
| "indexOf c (x # xs) =
     (if x = c then 0 else (let r = indexOf c xs in if r = - 1 then - 1 else r + 1))"

definition lastIndexOf :: "char \<Rightarrow> string \<Rightarrow> int" where
  "lastIndexOf c s =
     (let r = indexOf c (rev s) in if r = - 1 then - 1 else int (length s) - 1 - r)"

definition substring :: "string \<Rightarrow> int \<Rightarrow> int \<Rightarrow> string" where
  "substring s a b =
     (let n = int (length s);
          a' = max 0 (min a n);
          b' = max 0 (min b n);
          lo = min a' b';
          hi = max a' b'
      in take (nat (hi - lo)) (drop (nat lo) s))"

record SuggestedFields =
  s_category :: string
  s_year :: string
  s_purchasePrice :: rat
  s_purchaseDate :: string
  s_currentValue :: rat
  s_image :: string

text \<open>
  \<^verbatim>\<open>parseJSONContent\<close>. Every throw inside the \<^verbatim>\<open>try\<close> is caught and thrown again
  as the one \<^verbatim>\<open>SyntaxError\<close>. \<open>stringProp\<close> and \<open>numberProp\<close> are the tests
  \<^verbatim>\<open>typeof parsed.key === 'string'\<close> and \<^verbatim>\<open>typeof parsed.key === 'number'\<close>, made in
  the order of the source; a failed test, or a property read that throws, ends in the
  \<^verbatim>\<open>catch\<close>.
\<close>

definition stringProp :: "json \<Rightarrow> string \<Rightarrow> string option" where
  "stringProp parsed key =
     (case getProp parsed key of Some (Some (JStr s)) \<Rightarrow> Some s | _ \<Rightarrow> None)"

definition numberProp :: "json \<Rightarrow> string \<Rightarrow> rat option" where
  "numberProp parsed key =
     (case getProp parsed key of Some (Some (JNum n)) \<Rightarrow> Some n | _ \<Rightarrow> None)"

definition typedFields :: "json \<Rightarrow> SuggestedFields option" where
  "typedFields parsed =
     (case stringProp parsed ''category'' of None \<Rightarrow> None | Some c \<Rightarrow>
      case stringProp parsed ''year'' of None \<Rightarrow> None | Some y \<Rightarrow>
      case numberProp parsed ''purchasePrice'' of None \<Rightarrow> None | Some p \<Rightarrow>
      case stringProp parsed ''purchaseDate'' of None \<Rightarrow> None | Some d \<Rightarrow>
      case numberProp parsed ''currentValue'' of None \<Rightarrow> None | Some v \<Rightarrow>
      case stringProp parsed ''image'' of None \<Rightarrow> None | Some i \<Rightarrow>
        Some \<lparr> s_category = c, s_year = y, s_purchasePrice = p, s_purchaseDate = d,
               s_currentValue = v, s_image = i \<rparr>)"

definition parseJSONContent ::
  "(string \<Rightarrow> json option) \<Rightarrow> string \<Rightarrow> parse_error + SuggestedFields" where
  "parseJSONContent JSON_parse content =
     (let start = indexOf CHR ''{'' content;
          end' = lastIndexOf CHR ''}'' content + 1
      in if start = - 1 \<or> end' = - 1 then Inl SyntaxError
         else
           (case JSON_parse (substring content start end') of
              None \<Rightarrow> Inl SyntaxError
            | Some parsed \<Rightarrow>
                (case typedFields parsed of
                   None \<Rightarrow> Inl SyntaxError
                 | Some suggested \<Rightarrow> Inr suggested)))"

text \<open>
  The specification's words for an acceptable response: it holds a recoverable JSON
  object, that is, the text from the first \<^verbatim>\<open>{\<close> to the last \<^verbatim>\<open>}\<close> decodes to an
  object, in which \<open>category\<close>, \<open>year\<close>, \<open>purchaseDate\<close> and \<open>image\<close> are strings and
  \<open>purchasePrice\<close> and \<open>currentValue\<close> are numbers.
\<close>

definition recoverableObject ::
  "(string \<Rightarrow> json option) \<Rightarrow> string \<Rightarrow> SuggestedFields \<Rightarrow> bool" where
  "recoverableObject JSON_parse content f =
     (\<exists>members.
        indexOf CHR ''{'' content \<noteq> - 1
        \<and> JSON_parse (substring content (indexOf CHR ''{'' content)
                         (lastIndexOf CHR ''}'' content + 1)) = Some (JObj members)
        \<and> map_of members ''category'' = Some (JStr (s_category f))
        \<and> map_of members ''year'' = Some (JStr (s_year f))
        \<and> map_of members ''purchasePrice'' = Some (JNum (s_purchasePrice f))
        \<and> map_of members ''purchaseDate'' = Some (JStr (s_purchaseDate f))
        \<and> map_of members ''currentValue'' = Some (JNum (s_currentValue f))
        \<and> map_of members ''image'' = Some (JStr (s_image f)))"

section \<open>Test data\<close>

text \<open>Test data: a watch bought for 100 and valued at 150.\<close>

definition watch :: VintageItem where
  "watch = \<lparr> id_of = 1, name = ''Watch'', category = ''Orologi'', year = ''1999'',
             purchasePrice = 100, purchaseDate = ''01/02/2020'', currentValue = 150,
             image_of = ''/images/placeholder.png'', salePrice = None, saleDate = None,
             createdAt = 1 \<rparr>"


definition soldForZero :: VintageItem where
  "soldForZero = watch\<lparr>id_of := 2, salePrice := Some 0, saleDate := Some ''02/11/2026'', createdAt := 2\<rparr>"

definition camera :: VintageItem where
  "camera = \<lparr> id_of = 3, name = ''Leica M3'', category = ''Fotografia'', year = ''1957'',
              purchasePrice = 900, purchaseDate = ''15/06/2021'', currentValue = 950,
              image_of = ''/images/placeholder.png'', salePrice = None, saleDate = None,
              createdAt = 3 \<rparr>"

text \<open>A pen bought for 20 and valued at 30.\<close>

definition cheap :: VintageItem where
  "cheap = \<lparr> id_of = 4, name = ''Penna'', category = ''Scrittura'', year = ''2010'',
             purchasePrice = 20, purchaseDate = ''10/03/2015'', currentValue = 30,
             image_of = ''/images/placeholder.png'', salePrice = None, saleDate = None,
             createdAt = 4 \<rparr>"

definition demoState :: AppState where
  "demoState = \<lparr> items = [camera, soldForZero, watch],
       categories = [''Fotografia'', ''Orologi''], newItem = emptyForm, isAddingItem = False,
       editingItem = None, sellingItem = None, updatingValue = None,
       formErrors = Map.empty, toasts = [] \<rparr>"

text \<open>An edit of the watch that sets the year to 1700.\<close>

definition badEdit :: EditItem where
  "badEdit = \<lparr> f_name = ''Watch'', f_category = ''Orologi'', f_year = ''1700'',
       f_purchasePrice = Some 100, f_purchaseDate = ''01/02/2020'', f_currentValue = Some 150,
       f_image = ''/images/placeholder.png'', f_salePrice = None, f_saleDate = None,
       f_id = 1, f_createdAt = 1 \<rparr>"

text \<open>
  The add dialog filled in with the year 1999.5, which the number input accepts; the
  time value of the purchase date, 1 February 2020, and of now, 2 November 2026.
\<close>

definition fractionState :: AppState where
  "fractionState = demoState \<lparr> newItem :=
       \<lparr> f_name = ''Radio'', f_category = ''Elettronica'', f_year = ''1999.5'',
         f_purchasePrice = Some 40, f_purchaseDate = ''01/02/2020'', f_currentValue = Some 60,
         f_image = ''/images/placeholder.png'', f_salePrice = None, f_saleDate = None \<rparr> \<rparr>"

definition demoGetTime :: "string \<Rightarrow> rat option" where
  "demoGetTime s = (if s = ''2020-02-01'' then Some 1580515200000 else None)"

definition demoNow :: rat where
  "demoNow = 1793577600000"

text \<open>
  A stand-in for \<^verbatim>\<open>JSON.parse\<close> on the texts of the examples; it rejects every other
  text.
\<close>

definition idPrezzoJson :: string where
  \<open>idPrezzoJson = ''{"id":5,"prezzo":99}''\<close>

definition fieldsJson :: string where
  \<open>fieldsJson = ''{"category":"Orologi","year":"1999","purchasePrice":100,"purchaseDate":"01/02/2020","currentValue":150,"image":"/images/placeholder.png"}''\<close>

definition demoParse :: "string \<Rightarrow> json option" where
  \<open>demoParse s =
     (if s = ''{"prezzo":99}'' then Some (JObj [(''prezzo'', JNum 99)])
      else if s = idPrezzoJson then Some (JObj [(''id'', JNum 5), (''prezzo'', JNum 99)])
      else if s = fieldsJson then
        Some (JObj [(''category'', JStr ''Orologi''), (''year'', JStr ''1999''),
                    (''purchasePrice'', JNum 100), (''purchaseDate'', JStr ''01/02/2020''),
                    (''currentValue'', JNum 150), (''image'', JStr ''/images/placeholder.png'')])
      else None)\<close>

text \<open>The response \<^verbatim>\<open>Il prezzo e 250 EUR\<close> with its accented letter and its euro sign, in UTF-8.\<close>

text \<open>The same object after a no-break space (U+00A0) and before a line feed.\<close>

definition paddedJson :: string where
  "paddedJson = [CHR 0xC2, CHR 0xA0] @ idPrezzoJson @ [CHR 0x0A]"

definition prezzoText :: string where
  "prezzoText = ''Il prezzo '' @ [CHR 0xC3, CHR 0xA8] @ '' 250'' @ [CHR 0xE2, CHR 0x82, CHR 0xAC]"

section \<open>Theorems\<close>

subsection \<open>Profit and statistics\<close>

text \<open>
  C1. The claim: the profit of every item is \<open>(salePrice ?? currentValue) - purchasePrice\<close>,
  computed from the sale price also when the sale price is 0. The code tests the sale
  price for truthiness, so the watch sold for 0 (bought for 100, valued at 150) gets the
  profit 50 of an unsold item, where the claim gives -100.
\<close>

theorem calculateProfit_sold_for_zero:
  "calculateProfit soldForZero = 50
   \<and> spec_profit soldForZero = - 100"
  by (simp add: calculateProfit_def spec_profit_def truthy_def soldForZero_def watch_def)

text \<open>
  C3. The claim: the sold count is the number of items whose sale price is present, a
  sale price of 0 included, and the unsold count is the total minus the sold count. The
  counter filters on the truthiness of the sale price: over the single item sold for 0
  it reports 0 sold and 1 unsold, where one item has a sale price.
\<close>

theorem statistics_sold_for_zero_not_counted:
  "soldItems (statistics [soldForZero]) = 0
   \<and> unsoldItems (statistics [soldForZero]) = 1
   \<and> length (filter (\<lambda>item. salePrice item \<noteq> None) [soldForZero]) = 1"
  by (simp add: statistics_def Let_def truthy_def soldForZero_def)

text \<open>
  C8. The claim: over the empty sequence the statistics are 0 with no best performer, and
  over a non-empty sequence the best performer is the item maximizing the profit, the
  first occurrence winning ties. The reduce compares \<^verbatim>\<open>calculateProfit\<close>, which takes
  the current value for an item sold for 0. Over the item sold for 0 (profit -100) and
  the pen (profit 10) it picks the item sold for 0, where the pen maximizes the profit.
\<close>

theorem statistics_best_prefers_sold_for_zero:
  "mostProfitableItem (statistics [soldForZero, cheap]) = Some soldForZero
   \<and> spec_profit soldForZero = - 100
   \<and> spec_profit cheap = 10"
proof -
  have "calculateProfit soldForZero = 50" "calculateProfit cheap = 10"
    by (simp_all add: calculateProfit_def truthy_def soldForZero_def watch_def cheap_def)
  then have "mostProfitableItem (statistics [soldForZero, cheap]) = Some soldForZero"
    by (simp add: statistics_def Let_def pickMax_def)
  moreover have "spec_profit soldForZero = - 100" "spec_profit cheap = 10"
    by (simp_all add: spec_profit_def soldForZero_def watch_def cheap_def)
  ultimately show ?thesis by simp
qed

text \<open>
  C9. The claim: for an item with a positive purchase price the profit percentage is the
  profit divided by the purchase price, times 100, rounded to one decimal place. The
  percentage is computed from \<^verbatim>\<open>calculateProfit\<close>: for the item sold for 0, bought for
  100, the code prints \<open>50.0\<close>, where the profit -100 gives -100.
\<close>

theorem calculateProfitPercentage_sold_for_zero:
  "purchasePrice soldForZero = 100
   \<and> calculateProfitPercentage soldForZero = ''50.0''
   \<and> spec_profit soldForZero / purchasePrice soldForZero * 100 = - 100"
proof -
  have "calculateProfitPercentage soldForZero = ''50.0''" by code_simp
  moreover have "purchasePrice soldForZero = 100" "spec_profit soldForZero = - 100"
    by (simp_all add: spec_profit_def soldForZero_def watch_def)
  ultimately show ?thesis by simp
qed

subsection \<open>Sort direction\<close>

text \<open>
  C2. The claim: with direction \<open>desc\<close> the pipeline orders the items by decreasing key,
  with \<open>asc\<close> by increasing key; three items inserted at times 1, 2 and 3 and sorted by
  \<open>createdAt\<close>, \<open>desc\<close>, come out as 3, 2, 1. The comparator \<open>b.createdAt - a.createdAt\<close>
  is already the descending one, and the code keeps it for \<open>asc\<close> and negates it for
  \<open>desc\<close>: the three items come out as 1, 2, 3 under \<open>desc\<close> and as 3, 2, 1 under
  \<open>asc\<close>.
\<close>

theorem createdAt_desc_sorts_ascending:
  "map createdAt [camera, soldForZero, watch] = [3, 2, 1]
   \<and> filteredAndSortedItems (\<lambda>s. s) (\<lambda>s. None) [camera, soldForZero, watch]
        '''' ''all'' ''all'' ''createdAt'' Desc = [watch, soldForZero, camera]
   \<and> filteredAndSortedItems (\<lambda>s. s) (\<lambda>s. None) [camera, soldForZero, watch]
        '''' ''all'' ''all'' ''createdAt'' Asc = [camera, soldForZero, watch]"
  by code_simp

subsection \<open>Validation\<close>

lemma dom_flag: "dom (flag b k m) = {x. x = k \<and> b} \<union> dom m"
  by (auto simp: flag_def)

lemma checkYear_iff:
  "checkYear cy y \<longleftrightarrow>
     (y = [] \<or> \<not> (\<exists>n. parseInt y = Fin n \<and> 1800 \<le> n \<and> n \<le> rat_of_int cy))"
  by (cases "parseInt y") (auto simp: checkYear_def)

lemma checkDate_iff:
  "checkDate gt now d \<longleftrightarrow> (d = [] \<or> (\<exists>t. gt (isoForm d) = Some t \<and> t > now))"
  by (auto simp: checkDate_def jgreater_def timeValue_def split: option.splits)

lemma dom_validateForm:
  "dom (validateForm cy gt now c) = flaggedFields cy gt now c"
  by (simp only: validateForm_def flaggedFields_def dom_flag checkYear_iff checkDate_iff
        dom_empty Un_empty_right Un_empty_left Un_ac)

text \<open>
  C6, as the claim states it: every candidate with a failing field, a year that is not
  an integer within 1800 and the current year among them, is rejected by the add and
  update operations with its failing fields, and the collection stays unchanged. The
  year 1999.5 is not an integer, so the year is a failing field of the candidate; yet
  \<^verbatim>\<open>parseInt\<close> reads 1999 off it, validation flags nothing, and \<^verbatim>\<open>addItem\<close> puts the
  new item in front of the collection.
\<close>

theorem year_with_fraction_is_added:
  "''year'' \<in> claimedFailingFields 2026 demoGetTime demoNow (newItem fractionState)
   \<and> dom (validateForm 2026 demoGetTime demoNow (newItem fractionState)) = {}
   \<and> items (addItem 2026 demoGetTime demoNow 7 7 fractionState)
       = toItem 7 7 (newItem fractionState) # items fractionState
   \<and> items (addItem 2026 demoGetTime demoNow 7 7 fractionState) \<noteq> items fractionState"
proof -
  have y: "f_year (newItem fractionState) = ''1999.5''"
    by (simp add: fractionState_def)
  have "\<not> isIntegerText ''1999.5''" by code_simp
  then have a: "''year'' \<in> claimedFailingFields 2026 demoGetTime demoNow (newItem fractionState)"
    by (simp add: claimedFailingFields_def y)
  have cy: "\<not> checkYear 2026 ''1999.5''" by code_simp
  have cd: "\<not> checkDate demoGetTime demoNow ''01/02/2020''" by code_simp
  have b: "validateForm 2026 demoGetTime demoNow (newItem fractionState) = Map.empty"
    by (simp add: validateForm_def flag_def fractionState_def cy cd)
  then have c: "items (addItem 2026 demoGetTime demoNow 7 7 fractionState)
       = toItem 7 7 (newItem fractionState) # items fractionState"
    by (simp add: addItem_def Let_def)
  from a b c show ?thesis by simp
qed

text \<open>
  C6, amended. The fields that \<^verbatim>\<open>validateForm\<close> flags are: a required field that is
  missing, the year when the leading integer that \<^verbatim>\<open>parseInt\<close> reads off it is absent
  or outside 1800 and the current year, and the purchase date when it is a date later
  than now. When a candidate has a flagged field, \<^verbatim>\<open>addItem\<close> and \<^verbatim>\<open>updateItem\<close>
  only store the flagged fields in the form errors: the item collection and every
  other part of the state stay as they were.
\<close>

theorem validation_failure_blocks_mutation:
  "dom (validateForm cy gt now (newItem st)) = flaggedFields cy gt now (newItem st)
   \<and> dom (validateForm cy gt now u) = flaggedFields cy gt now u
   \<and> (flaggedFields cy gt now (newItem st) \<noteq> {} \<longrightarrow>
        addItem cy gt now idNow createdNow st
          = st\<lparr> formErrors := validateForm cy gt now (newItem st) \<rparr>
        \<and> items (addItem cy gt now idNow createdNow st) = items st)
   \<and> (flaggedFields cy gt now u \<noteq> {} \<longrightarrow>
        updateItem cy gt now u st = st\<lparr> formErrors := validateForm cy gt now u \<rparr>
        \<and> items (updateItem cy gt now u st) = items st)"
proof -
  have add: "addItem cy gt now idNow createdNow st
          = st\<lparr> formErrors := validateForm cy gt now (newItem st) \<rparr>"
    if "flaggedFields cy gt now (newItem st) \<noteq> {}"
  proof -
    from that have "dom (validateForm cy gt now (newItem st)) \<noteq> {}"
      by (simp add: dom_validateForm)
    then show ?thesis by (simp add: addItem_def Let_def)
  qed
  have upd: "updateItem cy gt now u st = st\<lparr> formErrors := validateForm cy gt now u \<rparr>"
    if "flaggedFields cy gt now u \<noteq> {}"
  proof -
    from that have "dom (validateForm cy gt now u) \<noteq> {}"
      by (simp add: dom_validateForm)
    then show ?thesis by (simp add: updateItem_def Let_def)
  qed
  show ?thesis using add upd by (simp add: dom_validateForm)
qed

theorem validation_failure_blocks_mutation_witness:
  "flaggedFields 2026 demoGetTime demoNow (newItem demoState) \<noteq> {}
   \<and> flaggedFields 2026 demoGetTime demoNow badEdit \<noteq> {}
   \<and> items (addItem 2026 demoGetTime demoNow 7 7 demoState) = [camera, soldForZero, watch]
   \<and> items (updateItem 2026 demoGetTime demoNow badEdit demoState)
       = [camera, soldForZero, watch]
   \<and> ''year'' \<in> dom (formErrors (updateItem 2026 demoGetTime demoNow badEdit demoState))"
proof -
  note inst = validation_failure_blocks_mutation
    [of 2026 demoGetTime demoNow demoState badEdit 7 7]
  have a: "''name'' \<in> flaggedFields 2026 demoGetTime demoNow (newItem demoState)"
    by (simp add: flaggedFields_def demoState_def emptyForm_def)
  have y: "parseInt ''1700'' = Fin 1700" by code_simp
  have b: "''year'' \<in> flaggedFields 2026 demoGetTime demoNow badEdit"
    by (simp add: flaggedFields_def badEdit_def y)
  have na: "flaggedFields 2026 demoGetTime demoNow (newItem demoState) \<noteq> {}" using a by blast
  have nb: "flaggedFields 2026 demoGetTime demoNow badEdit \<noteq> {}" using b by blast
  from inst na have 1: "items (addItem 2026 demoGetTime demoNow 7 7 demoState) = items demoState"
    by blast
  from inst nb have 2: "items (updateItem 2026 demoGetTime demoNow badEdit demoState) = items demoState"
    and 3: "updateItem 2026 demoGetTime demoNow badEdit demoState
           = demoState\<lparr> formErrors := validateForm 2026 demoGetTime demoNow badEdit \<rparr>"
    by blast+
  from inst have 4: "dom (validateForm 2026 demoGetTime demoNow badEdit)
      = flaggedFields 2026 demoGetTime demoNow badEdit"
    by blast
  have 5: "''year'' \<in> dom (formErrors (updateItem 2026 demoGetTime demoNow badEdit demoState))"
    using b by (simp only: 3 4 [symmetric]) simp
  have 6: "items demoState = [camera, soldForZero, watch]" by (simp add: demoState_def)
  show ?thesis using na nb 1 2 5 6 by simp
qed

text \<open>
  C10. \<^verbatim>\<open>sellItem\<close> and \<^verbatim>\<open>updateItemValue\<close> keep the length and the order of the
  collection. At a position whose item has the given id, the new item is the old one
  with the sale price and the sale date set, respectively with the current value set;
  at every other position the item is unchanged. When no item has the id, the
  collection is unchanged.
\<close>

theorem sell_revalue_frame:
  "length (items (sellItem today i price st)) = length (items st)
   \<and> length (items (updateItemValue i v st)) = length (items st)
   \<and> (\<forall>k < length (items st).
        (id_of (items st ! k) = i \<longrightarrow>
           items (sellItem today i price st) ! k
             = (items st ! k)\<lparr> salePrice := Some price, saleDate := Some today \<rparr>
           \<and> items (updateItemValue i v st) ! k = (items st ! k)\<lparr> currentValue := v \<rparr>)
        \<and> (id_of (items st ! k) \<noteq> i \<longrightarrow>
           items (sellItem today i price st) ! k = items st ! k
           \<and> items (updateItemValue i v st) ! k = items st ! k))
   \<and> ((\<forall>item \<in> set (items st). id_of item \<noteq> i) \<longrightarrow>
        items (sellItem today i price st) = items st
        \<and> items (updateItemValue i v st) = items st)"
proof -
  have same: "map (\<lambda>item. if id_of item = i then f item else item) xs = xs"
    if "\<forall>item \<in> set xs. id_of item \<noteq> i" for f :: "VintageItem \<Rightarrow> VintageItem" and xs
    using that by (induction xs) auto
  show ?thesis
    by (simp add: sellItem_def updateItemValue_def same)
qed

theorem sell_revalue_frame_witness:
  "items (sellItem ''02/11/2026'' 1 120 demoState) ! 2
     = watch\<lparr> salePrice := Some 120, saleDate := Some ''02/11/2026'' \<rparr>
   \<and> items (updateItemValue 1 180 demoState) ! 2 = watch\<lparr> currentValue := 180 \<rparr>
   \<and> items (sellItem ''02/11/2026'' 1 120 demoState) ! 0 = camera
   \<and> items (updateItemValue 1 180 demoState) ! 0 = camera
   \<and> items (sellItem ''02/11/2026'' 99 120 demoState) = items demoState
   \<and> items (updateItemValue 99 180 demoState) = items demoState"
proof -
  have ids: "id_of camera = 3" "id_of soldForZero = 2" "id_of watch = 1"
    by (simp_all add: camera_def soldForZero_def watch_def)
  have its: "items demoState = [camera, soldForZero, watch]" by (simp add: demoState_def)
  have absent: "\<forall>item \<in> set (items demoState). id_of item \<noteq> 99" by (simp add: its ids)
  have k2: "2 < length (items demoState)" "id_of (items demoState ! 2) = 1" by (simp_all add: its ids)
  have k0: "0 < length (items demoState)" "id_of (items demoState ! 0) \<noteq> 1" by (simp_all add: its ids)
  from sell_revalue_frame [of "''02/11/2026''" 1 120 demoState 180] k2 k0
  have hit: "items (sellItem ''02/11/2026'' 1 120 demoState) ! 2
       = (items demoState ! 2)\<lparr> salePrice := Some 120, saleDate := Some ''02/11/2026'' \<rparr>"
    "items (updateItemValue 1 180 demoState) ! 2 = (items demoState ! 2)\<lparr> currentValue := 180 \<rparr>"
    "items (sellItem ''02/11/2026'' 1 120 demoState) ! 0 = items demoState ! 0"
    "items (updateItemValue 1 180 demoState) ! 0 = items demoState ! 0"
    by blast+
  from sell_revalue_frame [of "''02/11/2026''" 99 120 demoState 180] absent
  have miss: "items (sellItem ''02/11/2026'' 99 120 demoState) = items demoState"
    "items (updateItemValue 99 180 demoState) = items demoState"
    by blast+
  show ?thesis using hit miss by (simp add: its)
qed

subsection \<open>Search\<close>

lemma of_char_lowerChar:
  "(of_char (lowerChar c) :: nat) = (if isUpper c then of_char c + 32 else of_char c)"
  by (simp add: lowerChar_def isUpper_def)

lemma lowerChar_eq_iff: "lowerChar a = lowerChar b \<longleftrightarrow> sameLetter a b"
proof -
  have "lowerChar a = lowerChar b \<longleftrightarrow> (of_char (lowerChar a) :: nat) = of_char (lowerChar b)"
    by simp
  also have "\<dots> \<longleftrightarrow> ((of_char a :: nat) = of_char b
       \<or> (isUpper a \<and> (of_char b :: nat) = of_char a + 32)
       \<or> (isUpper b \<and> (of_char a :: nat) = of_char b + 32))"
    unfolding of_char_lowerChar isUpper_def by auto
  also have "\<dots> \<longleftrightarrow> sameLetter a b"
    by (simp add: sameLetter_def)
  finally show ?thesis .
qed

lemma includes_str_iff: "includes_str s t \<longleftrightarrow> (\<exists>pre post. s = pre @ t @ post)"
proof (induction s)
  case Nil
  show ?case by auto
next
  case (Cons c s)
  show ?case
  proof
    assume "includes_str (c # s) t"
    then consider "prefix t (c # s)" | "includes_str s t" by auto
    then show "\<exists>pre post. c # s = pre @ t @ post"
    proof cases
      case 1
      then obtain post where "c # s = t @ post" by (auto simp: prefix_def)
      then have "c # s = [] @ t @ post" by simp
      then show ?thesis by blast
    next
      case 2
      with Cons.IH obtain pre post where "s = pre @ t @ post" by blast
      then have "c # s = (c # pre) @ t @ post" by simp
      then show ?thesis by blast
    qed
  next
    assume "\<exists>pre post. c # s = pre @ t @ post"
    then obtain pre post where eq: "c # s = pre @ t @ post" by blast
    show "includes_str (c # s) t"
    proof (cases pre)
      case Nil
      with eq have "prefix t (c # s)" by (simp add: prefix_def)
      then show ?thesis by simp
    next
      case (Cons p pre')
      with eq have "s = pre' @ t @ post" by simp
      with Cons.IH have "includes_str s t" by blast
      then show ?thesis by simp
    qed
  qed
qed

lemma map_lowerChar_eq_iff:
  "map lowerChar xs = map lowerChar ys \<longleftrightarrow> list_all2 sameLetter xs ys"
proof (induction xs arbitrary: ys)
  case Nil
  show ?case by auto
next
  case (Cons x xs)
  show ?case by (cases ys) (auto simp: Cons.IH lowerChar_eq_iff)
qed

lemma toLowerCase_ascii: "isAscii s \<Longrightarrow> toLowerCase ul s = map lowerChar s"
  by (simp add: toLowerCase_def)

lemma includes_lower_iff:
  assumes "isAscii s" "isAscii t"
  shows "includes_str (toLowerCase ul s) (toLowerCase ul t) \<longleftrightarrow> ciSubstring t s"
proof
  assume "includes_str (toLowerCase ul s) (toLowerCase ul t)"
  then obtain pre post where "map lowerChar s = pre @ map lowerChar t @ post"
    by (auto simp: includes_str_iff toLowerCase_ascii assms)
  then obtain s1 s2 s3 where s: "s = s1 @ s2 @ s3" and "map lowerChar s2 = map lowerChar t"
    by (auto simp: map_eq_append_conv append_eq_map_conv)
  then have "list_all2 sameLetter s2 t" by (simp add: map_lowerChar_eq_iff)
  with s show "ciSubstring t s" unfolding ciSubstring_def by blast
next
  assume "ciSubstring t s"
  then obtain pre mid post where s: "s = pre @ mid @ post" and "list_all2 sameLetter mid t"
    unfolding ciSubstring_def by blast
  then have "map lowerChar mid = map lowerChar t" by (simp add: map_lowerChar_eq_iff)
  with s have "map lowerChar s = map lowerChar pre @ map lowerChar t @ map lowerChar post"
    by simp
  then show "includes_str (toLowerCase ul s) (toLowerCase ul t)"
    unfolding includes_str_iff toLowerCase_ascii [OF assms(1)] toLowerCase_ascii [OF assms(2)]
    by blast
qed

lemma includes_str_empty: "includes_str s []"
  by (induction s) auto

lemma mset_insert_by: "mset (insert_by cmp x xs) = add_mset x (mset xs)"
  by (induction xs) auto

lemma mset_array_sort: "mset (array_sort cmp xs) = mset xs"
  by (induction xs) (auto simp: array_sort_def mset_insert_by)

lemma matchesSearch_iff:
  assumes "isAscii term" "isAscii (name item)" "isAscii (category item)"
  shows "matchesSearch ul term item
     \<longleftrightarrow> ciSubstring term (name item) \<or> ciSubstring term (category item)"
  using assms by (simp add: matchesSearch_def includes_lower_iff)

lemma matchesSearch_empty: "matchesSearch ul [] item"
  by (simp add: matchesSearch_def toLowerCase_def isAscii_def includes_str_empty)

text \<open>
  C7. On names, categories and search terms of ASCII characters, the search stage keeps
  exactly the items whose name or category has the search term as a case-insensitive
  substring, and with the two filters set to \<open>all\<close> the pipeline returns these items,
  each as often as it occurs, in the order of the sort. The empty term keeps every
  item, and the term \<open>wat\<close> matches the item named \<open>Watch\<close>. Beyond ASCII the match is
  the one of the case mapping of the runtime.
\<close>

theorem search_stage_case_insensitive:
  "(isAscii term \<and> (\<forall>item \<in> set its. isAscii (name item) \<and> isAscii (category item)) \<longrightarrow>
      filter (matchesSearch ul term) its
        = filter (\<lambda>item. ciSubstring term (name item) \<or> ciSubstring term (category item)) its
      \<and> mset (filteredAndSortedItems ul getTime its term ''all'' ''all'' sortBy order)
        = mset (filter (\<lambda>item. ciSubstring term (name item)
                                  \<or> ciSubstring term (category item)) its))
   \<and> filter (matchesSearch ul []) its = its
   \<and> matchesSearch ul ''wat'' watch"
proof -
  have d: "filter (matchesCategory ''all'') xs = xs" "filter (matchesSale ''all'') xs = xs"
    for xs
  proof -
    have "matchesCategory ''all'' item" "matchesSale ''all'' item" for item
      by (simp_all add: matchesCategory_def matchesSale_def)
    then show "filter (matchesCategory ''all'') xs = xs" "filter (matchesSale ''all'') xs = xs"
      by simp_all
  qed
  have e: "mset (filteredAndSortedItems ul getTime its term ''all'' ''all'' sortBy order)
     = mset (filter (matchesSearch ul term) its)"
    by (simp only: filteredAndSortedItems_def mset_array_sort d)
  have a: "filter (matchesSearch ul term) its
     = filter (\<lambda>item. ciSubstring term (name item) \<or> ciSubstring term (category item)) its"
    if "isAscii term" "\<forall>item \<in> set its. isAscii (name item) \<and> isAscii (category item)"
    by (rule filter_cong) (simp_all add: matchesSearch_iff that)
  have b: "filter (matchesSearch ul []) its = its"
    by (simp add: matchesSearch_empty)
  have c: "matchesSearch ul ''wat'' watch"
  proof -
    have "isAscii ''wat''" "isAscii (name watch)" "isAscii (category watch)" by code_simp+
    moreover have "includes_str (map lowerChar (name watch)) (map lowerChar ''wat'')"
      by code_simp
    ultimately show ?thesis by (simp add: matchesSearch_def toLowerCase_ascii)
  qed
  have ae: "isAscii term \<and> (\<forall>item \<in> set its. isAscii (name item) \<and> isAscii (category item)) \<longrightarrow>
      filter (matchesSearch ul term) its
        = filter (\<lambda>item. ciSubstring term (name item) \<or> ciSubstring term (category item)) its
      \<and> mset (filteredAndSortedItems ul getTime its term ''all'' ''all'' sortBy order)
        = mset (filter (\<lambda>item. ciSubstring term (name item)
                                  \<or> ciSubstring term (category item)) its)"
  proof (intro impI conjI)
    assume "isAscii term \<and> (\<forall>item \<in> set its. isAscii (name item) \<and> isAscii (category item))"
    then have eq: "filter (matchesSearch ul term) its
        = filter (\<lambda>item. ciSubstring term (name item) \<or> ciSubstring term (category item)) its"
      using a by blast
    show "filter (matchesSearch ul term) its
        = filter (\<lambda>item. ciSubstring term (name item) \<or> ciSubstring term (category item)) its"
      by (rule eq)
    show "mset (filteredAndSortedItems ul getTime its term ''all'' ''all'' sortBy order)
        = mset (filter (\<lambda>item. ciSubstring term (name item)
                                  \<or> ciSubstring term (category item)) its)"
      by (simp only: e eq)
  qed
  show ?thesis using ae b c by blast
qed

theorem search_stage_case_insensitive_witness:
  "isAscii ''wat''
   \<and> isAscii (name camera) \<and> isAscii (category camera)
   \<and> isAscii (name soldForZero) \<and> isAscii (category soldForZero)
   \<and> isAscii (name watch) \<and> isAscii (category watch)
   \<and> filter (\<lambda>item. ciSubstring ''wat'' (name item) \<or> ciSubstring ''wat'' (category item))
       [camera, soldForZero, watch] = [soldForZero, watch]"
proof -
  have t: "isAscii ''wat''" by code_simp
  have i: "\<forall>item \<in> set [camera, soldForZero, watch]. isAscii (name item) \<and> isAscii (category item)"
    by code_simp
  have "filter (matchesSearch (\<lambda>s. s) ''wat'') [camera, soldForZero, watch] = [soldForZero, watch]"
    by code_simp
  with search_stage_case_insensitive [of "''wat''" "[camera, soldForZero, watch]" "\<lambda>s. s"] t i
  have "filter (\<lambda>item. ciSubstring ''wat'' (name item) \<or> ciSubstring ''wat'' (category item))
       [camera, soldForZero, watch] = [soldForZero, watch]"
    by simp
  with t i show ?thesis by simp
qed

subsection \<open>Suggested fields\<close>

lemma indexOf_bounds: "- 1 \<le> indexOf c s \<and> indexOf c s < int (length s)"
  by (induction s) (auto simp: Let_def)

lemma lastIndexOf_ge: "- 1 \<le> lastIndexOf c s"
  using indexOf_bounds [of c "rev s"] by (auto simp: lastIndexOf_def Let_def)

lemma stringProp_iff:
  "stringProp parsed k = Some s \<longleftrightarrow> (\<exists>members. parsed = JObj members \<and> map_of members k = Some (JStr s))"
  by (cases parsed) (auto simp: stringProp_def getProp_def split: option.splits json.splits)

lemma numberProp_iff:
  "numberProp parsed k = Some n \<longleftrightarrow> (\<exists>members. parsed = JObj members \<and> map_of members k = Some (JNum n))"
  by (cases parsed) (auto simp: numberProp_def getProp_def split: option.splits json.splits)

lemma typedFields_iff:
  "typedFields parsed = Some f \<longleftrightarrow>
     (\<exists>members. parsed = JObj members
        \<and> map_of members ''category'' = Some (JStr (s_category f))
        \<and> map_of members ''year'' = Some (JStr (s_year f))
        \<and> map_of members ''purchasePrice'' = Some (JNum (s_purchasePrice f))
        \<and> map_of members ''purchaseDate'' = Some (JStr (s_purchaseDate f))
        \<and> map_of members ''currentValue'' = Some (JNum (s_currentValue f))
        \<and> map_of members ''image'' = Some (JStr (s_image f)))"
proof
  assume "typedFields parsed = Some f"
  then obtain c y p d v i where
    "stringProp parsed ''category'' = Some c" "stringProp parsed ''year'' = Some y"
    "numberProp parsed ''purchasePrice'' = Some p" "stringProp parsed ''purchaseDate'' = Some d"
    "numberProp parsed ''currentValue'' = Some v" "stringProp parsed ''image'' = Some i"
    and f: "f = \<lparr> s_category = c, s_year = y, s_purchasePrice = p, s_purchaseDate = d,
               s_currentValue = v, s_image = i \<rparr>"
    unfolding typedFields_def by (auto split: option.splits)
  then show "\<exists>members. parsed = JObj members
        \<and> map_of members ''category'' = Some (JStr (s_category f))
        \<and> map_of members ''year'' = Some (JStr (s_year f))
        \<and> map_of members ''purchasePrice'' = Some (JNum (s_purchasePrice f))
        \<and> map_of members ''purchaseDate'' = Some (JStr (s_purchaseDate f))
        \<and> map_of members ''currentValue'' = Some (JNum (s_currentValue f))
        \<and> map_of members ''image'' = Some (JStr (s_image f))"
    unfolding stringProp_iff numberProp_iff by auto
next
  assume "\<exists>members. parsed = JObj members
        \<and> map_of members ''category'' = Some (JStr (s_category f))
        \<and> map_of members ''year'' = Some (JStr (s_year f))
        \<and> map_of members ''purchasePrice'' = Some (JNum (s_purchasePrice f))
        \<and> map_of members ''purchaseDate'' = Some (JStr (s_purchaseDate f))
        \<and> map_of members ''currentValue'' = Some (JNum (s_currentValue f))
        \<and> map_of members ''image'' = Some (JStr (s_image f))"
  then have "stringProp parsed ''category'' = Some (s_category f)"
    "stringProp parsed ''year'' = Some (s_year f)"
    "numberProp parsed ''purchasePrice'' = Some (s_purchasePrice f)"
    "stringProp parsed ''purchaseDate'' = Some (s_purchaseDate f)"
    "numberProp parsed ''currentValue'' = Some (s_currentValue f)"
    "stringProp parsed ''image'' = Some (s_image f)"
    unfolding stringProp_iff numberProp_iff by auto
  then show "typedFields parsed = Some f"
    by (simp add: typedFields_def)
qed

text \<open>
  C5. \<^verbatim>\<open>parseJSONContent\<close> is all-or-nothing. It returns a suggestion exactly when the
  response holds a recoverable JSON object whose six members have the declared types,
  and the suggestion then carries the six values of that object; for every response
  with no such object it fails with the parse error.
\<close>

theorem parseJSONContent_all_or_nothing:
  "(parseJSONContent JSON_parse content = Inr f \<longleftrightarrow> recoverableObject JSON_parse content f)
   \<and> ((\<forall>g. \<not> recoverableObject JSON_parse content g) \<longrightarrow>
        parseJSONContent JSON_parse content = Inl SyntaxError)"
proof -
  have e: "lastIndexOf CHR ''}'' content + 1 \<noteq> - 1"
    using lastIndexOf_ge [of "CHR ''}''" content] by simp
  let ?text = "substring content (indexOf CHR ''{'' content) (lastIndexOf CHR ''}'' content + 1)"
  have a: "parseJSONContent JSON_parse content = Inr f \<longleftrightarrow> recoverableObject JSON_parse content f"
    for f
  proof (cases "indexOf CHR ''{'' content = - 1")
    case True
    then show ?thesis by (simp add: parseJSONContent_def recoverableObject_def)
  next
    case start: False
    show ?thesis
    proof (cases "JSON_parse ?text")
      case None
      with start show ?thesis by (simp add: parseJSONContent_def recoverableObject_def)
    next
      case (Some parsed)
      have "parseJSONContent JSON_parse content = Inr f \<longleftrightarrow> typedFields parsed = Some f"
        using start e Some by (simp add: parseJSONContent_def split: option.splits)
      also have "\<dots> \<longleftrightarrow> recoverableObject JSON_parse content f"
        unfolding typedFields_iff recoverableObject_def using start Some by simp
      finally show ?thesis .
    qed
  qed
  have "parseJSONContent JSON_parse content = Inl SyntaxError"
    if "\<forall>g. \<not> recoverableObject JSON_parse content g"
  proof (cases "parseJSONContent JSON_parse content")
    case (Inl err)
    then show ?thesis by (cases err) simp
  next
    case (Inr g)
    with a [of g] that show ?thesis by simp
  qed
  with a show ?thesis by blast
qed

theorem parseJSONContent_all_or_nothing_witness:
  \<open>parseJSONContent demoParse (''Ecco i dati: '' @ fieldsJson @ '' Spero sia utile.'')
     = Inr \<lparr> s_category = ''Orologi'', s_year = ''1999'', s_purchasePrice = 100,
             s_purchaseDate = ''01/02/2020'', s_currentValue = 150,
             s_image = ''/images/placeholder.png'' \<rparr>
   \<and> recoverableObject demoParse (''Ecco i dati: '' @ fieldsJson @ '' Spero sia utile.'')
       \<lparr> s_category = ''Orologi'', s_year = ''1999'', s_purchasePrice = 100,
             s_purchaseDate = ''01/02/2020'', s_currentValue = 150,
             s_image = ''/images/placeholder.png'' \<rparr>
   \<and> parseJSONContent demoParse ''{"category":"Orologi"}'' = Inl SyntaxError\<close>
proof -
  let ?c = "''Ecco i dati: '' @ fieldsJson @ '' Spero sia utile.''"
  let ?f = "\<lparr> s_category = ''Orologi'', s_year = ''1999'', s_purchasePrice = 100,
             s_purchaseDate = ''01/02/2020'', s_currentValue = 150,
             s_image = ''/images/placeholder.png'' \<rparr>"
  have ok: "parseJSONContent demoParse ?c = Inr ?f" by code_simp
  have bad: \<open>parseJSONContent demoParse ''{"category":"Orologi"}'' = Inl SyntaxError\<close> by code_simp
  from parseJSONContent_all_or_nothing [of demoParse ?c ?f]
  have "parseJSONContent demoParse ?c = Inr ?f \<longleftrightarrow> recoverableObject demoParse ?c ?f" ..
  with ok have "recoverableObject demoParse ?c ?f" by (rule iffD1 [rotated])
  with ok bad show ?thesis by (intro conjI)
qed

subsection \<open>Suggested price\<close>

lemma dropCodes_none:
  assumes "\<forall>w \<in> set codes. w \<noteq> [] \<longrightarrow> \<not> prefix w s"
  shows "dropCodes codes s = s"
proof -
  have "find (\<lambda>w. w \<noteq> [] \<and> prefix w s) codes = None"
    using assms by (auto simp: find_None_iff)
  then show ?thesis by (subst dropCodes.simps) simp
qed

lemma spaceCodes_ends:
  "list_all (\<lambda>w. \<not> isDigit (hd w) \<and> \<not> isDigit (last w)) spaceCodes"
  by code_simp

lemma trimStart_digit:
  assumes "s = [] \<or> isDigit (hd s)"
  shows "trimStart s = s"
  unfolding trimStart_def
proof (rule dropCodes_none, intro ballI impI notI)
  fix w assume w: "w \<in> set spaceCodes" "w \<noteq> []" "prefix w s"
  from w(2) obtain c r where "w = c # r" by (cases w) auto
  with w(3) have "s \<noteq> []" "hd s = hd w" by (auto simp: prefix_def)
  with assms have "isDigit (hd w)" by simp
  moreover have "\<not> isDigit (hd w)"
    using spaceCodes_ends w(1) by (simp add: list_all_iff)
  ultimately show False by simp
qed

lemma trimEnd_digit:
  assumes "s = [] \<or> isDigit (last s)"
  shows "trimEnd s = s"
proof -
  have "dropCodes (map rev spaceCodes) (rev s) = rev s"
  proof (rule dropCodes_none, intro ballI impI notI)
    fix w assume w: "w \<in> set (map rev spaceCodes)" "w \<noteq> []" "prefix w (rev s)"
    from w(1) obtain u where u: "u \<in> set spaceCodes" "w = rev u" by auto
    from w(2) obtain c r where "w = c # r" by (cases w) auto
    with w(3) have ne: "s \<noteq> []" and "hd (rev s) = hd w" by (auto simp: prefix_def)
    then have "last s = last u" using u(2) w(2) by (simp add: hd_rev)
    with assms ne have "isDigit (last u)" by simp
    moreover have "\<not> isDigit (last u)"
      using spaceCodes_ends u(1) by (simp add: list_all_iff)
    ultimately show False by simp
  qed
  then show ?thesis by (simp add: trimEnd_def)
qed

lemma digits_ends:
  assumes "list_all isDigit ds"
  shows "ds = [] \<or> isDigit (hd ds)" "ds = [] \<or> isDigit (last ds)"
proof -
  show "ds = [] \<or> isDigit (hd ds)"
    using assms by (cases ds) (simp_all add: list_all_iff)
  show "ds = [] \<or> isDigit (last ds)"
    using assms last_in_set [of ds] unfolding list_all_iff by blast
qed

lemma trim_digits: "list_all isDigit ds \<Longrightarrow> trim ds = ds"
  by (simp add: trim_def trimStart_digit trimEnd_digit digits_ends)

lemma isDigit_not_sign: "isDigit c \<Longrightarrow> c \<noteq> CHR ''-'' \<and> c \<noteq> CHR ''+''"
  by (auto simp: isDigit_def)

lemma parseInt10_digits:
  assumes "list_all isDigit ds"
  shows "parseInt10 ds = (if ds = [] then NaN else natToDouble (readNat ds))"
proof (cases ds)
  case Nil
  then show ?thesis by (simp add: parseInt10_def takeSign_def trimStart_digit)
next
  case (Cons c r)
  with assms have c: "isDigit c" and all: "\<forall>x \<in> set ds. isDigit x"
    by (simp_all add: list_all_iff)
  have 1: "trimStart ds = ds" using assms by (simp add: trimStart_digit digits_ends)
  have 2: "takeSign ds = (False, ds)"
    using isDigit_not_sign [OF c] by (simp add: takeSign_def Cons)
  have 3: "takeWhile isDigit ds = ds" using all by (simp add: takeWhile_eq_all_conv)
  have ne: "ds \<noteq> []" using Cons by simp
  show ?thesis unfolding parseInt10_def 1 2 by (simp add: 3 ne applySign_def)
qed

lemma natToDouble_not_NaN: "natToDouble n \<noteq> NaN"
  by (simp add: natToDouble_def Let_def)

lemma natToDouble_small: "int n < 2 ^ 53 \<Longrightarrow> natToDouble n = Fin (rat_of_int (int n))"
  by (simp add: natToDouble_def)

text \<open>Above \<open>2^53\<close> the number value is rounded: a tie goes to the even mantissa.\<close>

lemma natToDouble_ties_to_even:
  "natToDouble 9007199254740993 = Fin 9007199254740992
   \<and> natToDouble 9007199254740995 = Fin 9007199254740996"
  by (simp add: natToDouble_def roundHalfEven_def Let_def bitLength.simps)

lemma finalPrice_number: "p \<noteq> NaN \<Longrightarrow> finalPrice item p = (p, None)"
  by (cases p) (simp_all add: finalPrice_def)

lemma parseIntNum_int:
  assumes "\<bar>n\<bar> < 2 ^ 53"
  shows "parseIntNum (of_int n) = Fin (of_int n)"
proof (cases "n = 0")
  case True
  then show ?thesis by (simp add: parseIntNum_def)
next
  case False
  have abs: "\<bar>rat_of_int n\<bar> = rat_of_int \<bar>n\<bar>" by simp
  have ge: "\<not> rat_of_int \<bar>n\<bar> < 1 / 10 ^ 6"
  proof -
    have "1 \<le> \<bar>n\<bar>" using False by simp
    then have "(1::rat) \<le> rat_of_int \<bar>n\<bar>" by (metis of_int_1 of_int_le_iff)
    moreover have "(1::rat) / 10 ^ 6 < 1" by simp
    ultimately show ?thesis by linarith
  qed
  have "\<bar>n\<bar> < 10 ^ 21" using assms by simp
  then have "rat_of_int \<bar>n\<bar> < rat_of_int (10 ^ 21)" by (simp only: of_int_less_iff)
  then have lt: "\<not> (10::rat) ^ 21 \<le> rat_of_int \<bar>n\<bar>" by simp
  have nz: "rat_of_int \<bar>n\<bar> \<noteq> 0" using False by simp
  have small: "int (nat \<bar>n\<bar>) < 2 ^ 53" using assms by simp
  have val: "natToDouble (nat \<lfloor>rat_of_int \<bar>n\<bar>\<rfloor>) = Fin (rat_of_int \<bar>n\<bar>)"
  proof -
    have "nat \<lfloor>rat_of_int \<bar>n\<bar>\<rfloor> = nat \<bar>n\<bar>" by (simp only: floor_of_int)
    moreover have "int (nat \<bar>n\<bar>) = \<bar>n\<bar>" by simp
    ultimately show ?thesis using natToDouble_small [OF small] by (simp only:)
  qed
  have sign: "applySign (rat_of_int n < 0) (Fin (rat_of_int \<bar>n\<bar>)) = Fin (rat_of_int n)"
    by (simp add: applySign_def)
  show ?thesis
    unfolding parseIntNum_def Let_def abs val using ge lt nz sign by (simp del: of_int_abs)
qed

lemma finalPrice_fallback:
  "snd (finalPrice item p) \<noteq> None \<Longrightarrow> fst (finalPrice item p) = Fin (currentValue item)"
  by (cases p) (simp_all add: finalPrice_def)

lemma findSuggestedPrice_fallback:
  "snd (findSuggestedPrice JSON_parse item content) \<noteq> None
     \<Longrightarrow> fst (findSuggestedPrice JSON_parse item content) = Fin (currentValue item)"
  unfolding findSuggestedPrice_def Let_def
  by (auto simp: finalPrice_fallback split: option.splits json.splits)

lemma findSuggestedPrice_free_text:
  assumes "\<not> braced (trim response)"
  shows "findSuggestedPrice JSON_parse item (Some response) =
     (if stripNonDigits (trim response) = [] then (Fin (currentValue item), Some PriceLookupError)
      else (natToDouble (readNat (stripNonDigits (trim response))), None))"
proof -
  have d: "list_all isDigit (stripNonDigits (trim response))"
    by (simp add: stripNonDigits_def list_all_iff)
  show ?thesis
    using assms
    by (simp add: findSuggestedPrice_def Let_def trim_digits [OF d] parseInt10_digits [OF d]
          finalPrice_number natToDouble_not_NaN)
       (simp add: finalPrice_def)
qed

lemma findSuggestedPrice_json_number:
  assumes "braced (trim response)" "JSON_parse (trim response) = Some (JObj members)"
    "map_of members ''prezzo'' = Some (JNum (of_int n))" "\<bar>n\<bar> < 2 ^ 53"
  shows "findSuggestedPrice JSON_parse item (Some response) = (Fin (of_int n), None)"
  using assms
  by (simp add: findSuggestedPrice_def Let_def getProp_def parseIntNum_int finalPrice_def)

lemma findSuggestedPrice_prezzoText:
  "findSuggestedPrice JSON_parse item (Some prezzoText) = (Fin 250, None)"
proof -
  have "trim prezzoText = prezzoText" by code_simp
  moreover have "\<not> braced prezzoText" by code_simp
  moreover have "stripNonDigits prezzoText = ''250''" by code_simp
  moreover have "natToDouble (readNat ''250'') = Fin 250" by code_simp
  ultimately show ?thesis using findSuggestedPrice_free_text [of prezzoText JSON_parse item] by simp
qed

lemma findSuggestedPrice_nessun_dato:
  "findSuggestedPrice JSON_parse item (Some ''nessun dato'')
     = (Fin (currentValue item), Some PriceLookupError)"
proof -
  have "trim ''nessun dato'' = ''nessun dato''" by code_simp
  moreover have "\<not> braced ''nessun dato''" by code_simp
  moreover have "stripNonDigits ''nessun dato'' = []" by code_simp
  ultimately show ?thesis
    using findSuggestedPrice_free_text [of "''nessun dato''" JSON_parse item] by simp
qed

lemma findSuggestedPrice_prezzo_object:
  assumes \<open>JSON_parse ''{"prezzo":99}'' = Some (JObj [(''prezzo'', JNum 99)])\<close>
  shows \<open>findSuggestedPrice JSON_parse item (Some ''{"prezzo":99}'') = (Fin 99, None)\<close>
proof -
  have \<open>trim ''{"prezzo":99}'' = ''{"prezzo":99}''\<close> by code_simp
  moreover have \<open>braced ''{"prezzo":99}''\<close> by code_simp
  moreover have "JNum 99 = JNum (of_int 99)" by simp
  ultimately show ?thesis
    using assms findSuggestedPrice_json_number
      [of \<open>''{"prezzo":99}''\<close> JSON_parse "[(''prezzo'', JNum 99)]" 99 item]
    by simp
qed

lemma findSuggestedPrice_padded_object:
  assumes "JSON_parse idPrezzoJson = Some (JObj [(''id'', JNum 5), (''prezzo'', JNum 99)])"
  shows "findSuggestedPrice JSON_parse item (Some paddedJson) = (Fin 99, None)"
proof -
  have "trim paddedJson = idPrezzoJson" by code_simp
  moreover have "braced idPrezzoJson" by code_simp
  moreover have "JNum 99 = JNum (of_int 99)" by simp
  ultimately show ?thesis
    using assms findSuggestedPrice_json_number
      [of paddedJson JSON_parse "[(''id'', JNum 5), (''prezzo'', JNum 99)]" 99 item]
    by simp
qed

text \<open>
  C4. \<^verbatim>\<open>findSuggestedPrice\<close> on the text of the gateway response. Free text (a trimmed
  response that is not wrapped in braces) is stripped of its non-digit characters and
  the digits are read as an integer, whose number value is returned; when no digit is
  left the function fails and returns the current value of the item. From a bare JSON
  object whose member \<open>prezzo\<close> is an integer it returns that integer, whatever other
  digits the object holds. Whenever it fails it returns the current value of the item.
  The examples: the free text with 250 gives 250; the object with \<open>prezzo\<close> 99 gives 99,
  also next to a member \<open>id\<close> 5 and between a no-break space and a line feed;
  \<open>nessun dato\<close> fails with the fallback.
\<close>

theorem findSuggestedPrice_extraction:
  \<open>(\<not> braced (trim response) \<longrightarrow>
      findSuggestedPrice JSON_parse item (Some response) =
        (if stripNonDigits (trim response) = []
         then (Fin (currentValue item), Some PriceLookupError)
         else (natToDouble (readNat (stripNonDigits (trim response))), None)))
   \<and> (braced (trim response) \<and> JSON_parse (trim response) = Some (JObj members)
        \<and> map_of members ''prezzo'' = Some (JNum (of_int n)) \<and> \<bar>n\<bar> < 2 ^ 53 \<longrightarrow>
      findSuggestedPrice JSON_parse item (Some response) = (Fin (of_int n), None))
   \<and> (snd (findSuggestedPrice JSON_parse item content) \<noteq> None \<longrightarrow>
      fst (findSuggestedPrice JSON_parse item content) = Fin (currentValue item))
   \<and> findSuggestedPrice JSON_parse item (Some prezzoText) = (Fin 250, None)
   \<and> (JSON_parse ''{"prezzo":99}'' = Some (JObj [(''prezzo'', JNum 99)]) \<longrightarrow>
      findSuggestedPrice JSON_parse item (Some ''{"prezzo":99}'') = (Fin 99, None))
   \<and> (JSON_parse idPrezzoJson = Some (JObj [(''id'', JNum 5), (''prezzo'', JNum 99)]) \<longrightarrow>
      findSuggestedPrice JSON_parse item (Some paddedJson) = (Fin 99, None))
   \<and> findSuggestedPrice JSON_parse item (Some ''nessun dato'')
       = (Fin (currentValue item), Some PriceLookupError)\<close>
proof -
  have c1: \<open>\<not> braced (trim response) \<longrightarrow>
      findSuggestedPrice JSON_parse item (Some response) =
        (if stripNonDigits (trim response) = []
         then (Fin (currentValue item), Some PriceLookupError)
         else (natToDouble (readNat (stripNonDigits (trim response))), None))\<close>
    using findSuggestedPrice_free_text [of response JSON_parse item] by (rule impI)
  have c2: \<open>braced (trim response) \<and> JSON_parse (trim response) = Some (JObj members)
        \<and> map_of members ''prezzo'' = Some (JNum (of_int n)) \<and> \<bar>n\<bar> < 2 ^ 53 \<longrightarrow>
      findSuggestedPrice JSON_parse item (Some response) = (Fin (of_int n), None)\<close>
  proof (intro impI, elim conjE)
    assume "braced (trim response)" "JSON_parse (trim response) = Some (JObj members)"
      "map_of members ''prezzo'' = Some (JNum (of_int n))" "\<bar>n\<bar> < 2 ^ 53"
    then show "findSuggestedPrice JSON_parse item (Some response) = (Fin (of_int n), None)"
      by (rule findSuggestedPrice_json_number)
  qed
  have c3: \<open>snd (findSuggestedPrice JSON_parse item content) \<noteq> None \<longrightarrow>
      fst (findSuggestedPrice JSON_parse item content) = Fin (currentValue item)\<close>
    using findSuggestedPrice_fallback [of JSON_parse item content] by (rule impI)
  have c4: \<open>findSuggestedPrice JSON_parse item (Some prezzoText) = (Fin 250, None)\<close>
    by (rule findSuggestedPrice_prezzoText)
  have c5: \<open>JSON_parse ''{"prezzo":99}'' = Some (JObj [(''prezzo'', JNum 99)]) \<longrightarrow>
      findSuggestedPrice JSON_parse item (Some ''{"prezzo":99}'') = (Fin 99, None)\<close>
    using findSuggestedPrice_prezzo_object [of JSON_parse item] by (rule impI)
  have c6: \<open>JSON_parse idPrezzoJson = Some (JObj [(''id'', JNum 5), (''prezzo'', JNum 99)]) \<longrightarrow>
      findSuggestedPrice JSON_parse item (Some paddedJson) = (Fin 99, None)\<close>
    using findSuggestedPrice_padded_object [of JSON_parse item] by (rule impI)
  have c7: \<open>findSuggestedPrice JSON_parse item (Some ''nessun dato'')
       = (Fin (currentValue item), Some PriceLookupError)\<close>
    by (rule findSuggestedPrice_nessun_dato)
  from c1 c2 c3 c4 c5 c6 c7 show ?thesis by (intro conjI)
qed

theorem findSuggestedPrice_extraction_witness:
  \<open>findSuggestedPrice demoParse watch (Some '' circa 1.200 euro '') = (Fin 1200, None)
   \<and> findSuggestedPrice demoParse watch (Some '' {"prezzo":99} '') = (Fin 99, None)
   \<and> findSuggestedPrice demoParse watch (Some ''{"prezzo":99}'') = (Fin 99, None)
   \<and> findSuggestedPrice demoParse watch (Some paddedJson) = (Fin 99, None)
   \<and> fst (findSuggestedPrice demoParse watch (Some ''{"prezzo":'')) = Fin 150\<close>
proof -
  have t1: "trim '' circa 1.200 euro '' = ''circa 1.200 euro''" by code_simp
  have b1: "\<not> braced ''circa 1.200 euro''" by code_simp
  have s1: "stripNonDigits ''circa 1.200 euro'' = ''1200''" by code_simp
  have r1: "natToDouble (readNat ''1200'') = Fin 1200" by code_simp
  have 1: "findSuggestedPrice demoParse watch (Some '' circa 1.200 euro '') = (Fin 1200, None)"
    using findSuggestedPrice_extraction
      [of "'' circa 1.200 euro ''" demoParse watch "[]" 0 None] b1
    by (simp add: t1 s1 r1)
  have t2: \<open>trim '' {"prezzo":99} '' = ''{"prezzo":99}''\<close> by code_simp
  have b2: \<open>braced ''{"prezzo":99}''\<close> by code_simp
  have p2: \<open>demoParse ''{"prezzo":99}'' = Some (JObj [(''prezzo'', JNum 99)])\<close>
    by code_simp
  have m2: "map_of [(''prezzo'', JNum (of_int 99))] ''prezzo'' = Some (JNum (of_int 99))"
    by simp
  have k2: "\<bar>99 :: int\<bar> < 2 ^ 53" by simp
  note j2 = findSuggestedPrice_extraction
      [of \<open>'' {"prezzo":99} ''\<close> demoParse watch "[(''prezzo'', JNum (of_int 99))]" 99 None,
       THEN conjunct2, THEN conjunct1]
  have q2: \<open>braced (trim '' {"prezzo":99} '')
        \<and> demoParse (trim '' {"prezzo":99} '') = Some (JObj [(''prezzo'', JNum (of_int 99))])
        \<and> map_of [(''prezzo'', JNum (of_int 99))] ''prezzo'' = Some (JNum (of_int 99))
        \<and> \<bar>99 :: int\<bar> < 2 ^ 53\<close>
    unfolding t2 using b2 p2 m2 k2 by simp
  from j2 q2 have \<open>findSuggestedPrice demoParse watch (Some '' {"prezzo":99} '')
      = (Fin (of_int 99), None)\<close>
    by (rule mp)
  then have 2: \<open>findSuggestedPrice demoParse watch (Some '' {"prezzo":99} '') = (Fin 99, None)\<close>
    by simp
  have p3: "demoParse idPrezzoJson = Some (JObj [(''id'', JNum 5), (''prezzo'', JNum 99)])"
    by code_simp
  note inst = findSuggestedPrice_extraction [of "[]" demoParse watch "[]" 0 None]
  from inst have i5: \<open>demoParse ''{"prezzo":99}'' = Some (JObj [(''prezzo'', JNum 99)]) \<longrightarrow>
      findSuggestedPrice demoParse watch (Some ''{"prezzo":99}'') = (Fin 99, None)\<close>
    by (elim conjE)
  from inst have i6: \<open>demoParse idPrezzoJson = Some (JObj [(''id'', JNum 5), (''prezzo'', JNum 99)]) \<longrightarrow>
      findSuggestedPrice demoParse watch (Some paddedJson) = (Fin 99, None)\<close>
    by (elim conjE)
  have 3: \<open>findSuggestedPrice demoParse watch (Some ''{"prezzo":99}'') = (Fin 99, None)\<close>
    using i5 p2 by (rule mp)
  have 5: \<open>findSuggestedPrice demoParse watch (Some paddedJson) = (Fin 99, None)\<close>
    using i6 p3 by (rule mp)
  have e4: \<open>snd (findSuggestedPrice demoParse watch (Some ''{"prezzo":'')) \<noteq> None\<close>
    by code_simp
  have c4: "currentValue watch = 150" by (simp add: watch_def)
  have 4: \<open>fst (findSuggestedPrice demoParse watch (Some ''{"prezzo":'')) = Fin 150\<close>
    using findSuggestedPrice_extraction
      [of "[]" demoParse watch "[]" 0 \<open>Some ''{"prezzo":''\<close>] e4 c4
    by simp
  from 1 2 3 5 4 show ?thesis by (intro conjI)
qed

end
